theory Spec2Isabelle
  imports Complex_Main "HOL-Library.Word"
begin

section \<open>Strings of the host language\<close>

text \<open>
  A JavaScript string is a sequence of UTF-16 code units; \<open>length\<close> counts code units,
  as \<^verbatim>\<open>String.prototype.length\<close> does. String literals of the sources are ASCII and are
  written through \<open>js\<close>.
\<close>

type_synonym jsstring = "16 word list"

definition js :: "string \<Rightarrow> jsstring" where
  "js s = map (\<lambda>c. of_char c) s"

section \<open>Mind-map layout (components/VisualizationModal.tsx)\<close>

text \<open>
  Numbers of the layout are IEEE doubles in the source; they are modelled as real numbers,
  so every statement below is about the exact arithmetic the code approximates.
  \<^verbatim>\<open>Math.sqrt\<close>, \<^verbatim>\<open>Math.cos\<close>, \<^verbatim>\<open>Math.sin\<close> and \<^verbatim>\<open>Math.PI\<close> are \<open>sqrt\<close>, \<open>cos\<close>, \<open>sin\<close>
  and \<open>pi\<close>; \<^verbatim>\<open>Math.atan2\<close> is \<open>atan2\<close> below.
\<close>

definition atan2 :: "real \<Rightarrow> real \<Rightarrow> real" where
  "atan2 b a =
     (if 0 < a then arctan (b / a)
      else if a < 0 then (if 0 \<le> b then arctan (b / a) + pi else arctan (b / a) - pi)
      else if 0 < b then pi / 2
      else if b < 0 then - (pi / 2)
      else 0)"

subsection \<open>Data (types.ts, interface LayoutNode)\<close>

datatype MindMapNode =
  MindMapNode (mmId: jsstring) (mmLabel: jsstring) (children: "MindMapNode list option")

record MindMapData =
  centralTopic :: jsstring
  nodes :: "MindMapNode list"

text \<open>
  The fields \<^verbatim>\<open>id\<close>, \<^verbatim>\<open>x\<close> and \<^verbatim>\<open>y\<close> of \<^verbatim>\<open>LayoutNode\<close> are \<open>nodeId\<close>, \<open>nodeX\<close> and \<open>nodeY\<close>;
  the optional \<^verbatim>\<open>parentId\<close> is an option.
\<close>

record LayoutNode =
  nodeId :: jsstring
  label :: jsstring
  width :: real
  height :: real
  nodeX :: real
  nodeY :: real
  level :: nat
  parentId :: "jsstring option"
  isFixed :: bool

definition CENTER_X :: real where "CENTER_X = 500"
definition CENTER_Y :: real where "CENTER_Y = 500"
definition MAIN_RADIUS :: real where "MAIN_RADIUS = 300"
definition CHILD_RADIUS :: real where "CHILD_RADIUS = 100"

subsection \<open>Phase 1: seeding\<close>

definition estimateWidth :: "jsstring \<Rightarrow> nat \<Rightarrow> real" where
  "estimateWidth lbl lvl =
     (let basePadding = (if lvl > 1 then 24 else 40);
          charWidth = (if lvl > 1 then 7 else 9)
      in min 180 (basePadding + real (length lbl) * charWidth))"

definition centralNode :: "MindMapData \<Rightarrow> LayoutNode" where
  "centralNode mindMapData =
     \<lparr> nodeId = js ''central'',
       label = centralTopic mindMapData,
       width = estimateWidth (centralTopic mindMapData) 0,
       height = 60,
       nodeX = CENTER_X, nodeY = CENTER_Y,
       level = 0,
       parentId = None,
       isFixed = True \<rparr>"

text \<open>
  The body of the inner \<^verbatim>\<open>forEach\<close>: child \<open>j\<close> of \<open>n\<close> is pushed after reading
  \<^verbatim>\<open>layoutNodes[layoutNodes.length - 1]\<close>, the node pushed last. The list is never empty
  here: the central node is pushed first.
\<close>

definition pushChild ::
  "jsstring \<Rightarrow> nat \<Rightarrow> nat \<Rightarrow> MindMapNode \<Rightarrow> LayoutNode list \<Rightarrow> LayoutNode list" where
  "pushChild mainId n j childNode layoutNodes =
     (let lastNode = last layoutNodes;
          parentAngle = atan2 (nodeY lastNode - CENTER_Y) (nodeX lastNode - CENTER_X);
          childAngle = parentAngle + (real j - (real n - 1) / 2) * 0.5
      in layoutNodes @
         [\<lparr> nodeId = mmId childNode,
            label = mmLabel childNode,
            width = estimateWidth (mmLabel childNode) 2,
            height = 40,
            nodeX = nodeX lastNode + CHILD_RADIUS * cos childAngle,
            nodeY = nodeY lastNode + CHILD_RADIUS * sin childAngle,
            level = 2,
            parentId = Some mainId,
            isFixed = False \<rparr>])"

fun seedChildren ::
  "jsstring \<Rightarrow> nat \<Rightarrow> nat \<Rightarrow> MindMapNode list \<Rightarrow> LayoutNode list \<Rightarrow> LayoutNode list" where
  "seedChildren mainId n j [] layoutNodes = layoutNodes"
| "seedChildren mainId n j (childNode # rest) layoutNodes =
     seedChildren mainId n (Suc j) rest (pushChild mainId n j childNode layoutNodes)"

definition pushMain :: "nat \<Rightarrow> nat \<Rightarrow> MindMapNode \<Rightarrow> LayoutNode list \<Rightarrow> LayoutNode list" where
  "pushMain cnt i mainNode layoutNodes =
     (let angle = (real i / real cnt) * 2 * pi
      in layoutNodes @
         [\<lparr> nodeId = mmId mainNode,
            label = mmLabel mainNode,
            width = estimateWidth (mmLabel mainNode) 1,
            height = 50,
            nodeX = CENTER_X + MAIN_RADIUS * cos angle,
            nodeY = CENTER_Y + MAIN_RADIUS * sin angle,
            level = 1,
            parentId = Some (js ''central''),
            isFixed = False \<rparr>])"

fun seedMains :: "nat \<Rightarrow> nat \<Rightarrow> MindMapNode list \<Rightarrow> LayoutNode list \<Rightarrow> LayoutNode list" where
  "seedMains cnt i [] layoutNodes = layoutNodes"
| "seedMains cnt i (mainNode # rest) layoutNodes =
     seedMains cnt (Suc i) rest
       (let pushed = pushMain cnt i mainNode layoutNodes
        in case children mainNode of
             None \<Rightarrow> pushed
           | Some cs \<Rightarrow> seedChildren (mmId mainNode) (length cs) 0 cs pushed)"

definition seedNodes :: "MindMapData \<Rightarrow> LayoutNode list" where
  "seedNodes mindMapData =
     seedMains (length (nodes mindMapData)) 0 (nodes mindMapData) [centralNode mindMapData]"

subsection \<open>Phase 2: relaxation\<close>

definition iterations :: nat where "iterations = 150"
definition repulsionStrength :: real where "repulsionStrength = 0.8"
definition attractionStrength :: real where "attractionStrength = 0.05"

text \<open>
  The body of the repulsion loops for the pair \<open>(j, k)\<close>. The source updates the two node
  objects in place; the second update reads the list after the first one.
\<close>

definition repelPair :: "nat \<Rightarrow> nat \<Rightarrow> LayoutNode list \<Rightarrow> LayoutNode list" where
  "repelPair j k ns =
     (let nodeA = ns ! j;
          nodeB = ns ! k;
          dx = nodeX nodeA - nodeX nodeB;
          dy = nodeY nodeA - nodeY nodeB;
          d0 = sqrt (dx * dx + dy * dy);
          distance = (if d0 = 0 then 0.1 else d0);
          minDistance = width nodeA / 2 + width nodeB / 2
                        + (if level nodeA = 2 \<and> level nodeB = 2 then 15 else 30)
      in if distance < minDistance then
           (let force = repulsionStrength * (minDistance - distance) / distance;
                moveX = dx * force;
                moveY = dy * force;
                ns1 = (if \<not> isFixed nodeA
                       then ns[j := (ns ! j)\<lparr>nodeX := nodeX (ns ! j) + moveX,
                                              nodeY := nodeY (ns ! j) + moveY\<rparr>]
                       else ns)
            in if \<not> isFixed nodeB
               then ns1[k := (ns1 ! k)\<lparr>nodeX := nodeX (ns1 ! k) - moveX,
                                        nodeY := nodeY (ns1 ! k) - moveY\<rparr>]
               else ns1)
         else ns)"

lemma length_repelPair [simp]: "length (repelPair j k ns) = length ns"
  by (simp add: repelPair_def Let_def)

function repelInner :: "nat \<Rightarrow> nat \<Rightarrow> LayoutNode list \<Rightarrow> LayoutNode list" where
  "repelInner j k ns =
     (if k < length ns then repelInner j (Suc k) (repelPair j k ns) else ns)"
  by pat_completeness auto
termination
  by (relation "measure (\<lambda>(j, k, ns). length ns - k)") auto

declare repelInner.simps [simp del]

lemma length_repelInner [simp]: "length (repelInner j k ns) = length ns"
  by (induction j k ns rule: repelInner.induct) (subst repelInner.simps, simp)

function repelOuter :: "nat \<Rightarrow> LayoutNode list \<Rightarrow> LayoutNode list" where
  "repelOuter j ns =
     (if j < length ns then repelOuter (Suc j) (repelInner j (Suc j) ns) else ns)"
  by pat_completeness auto
termination
  by (relation "measure (\<lambda>(j, ns). length ns - j)") auto

declare repelOuter.simps [simp del]

lemma length_repelOuter [simp]: "length (repelOuter j ns) = length ns"
  by (induction j ns rule: repelOuter.induct) (subst repelOuter.simps, simp)

text \<open>
  The body of the attraction loop for the node at index \<open>i\<close>. \<^verbatim>\<open>if (node.parentId)\<close> is
  false for a missing and for an empty parent id; \<^verbatim>\<open>Array.prototype.find\<close> returns the
  first node with the id.
\<close>

definition attractNode :: "nat \<Rightarrow> LayoutNode list \<Rightarrow> LayoutNode list" where
  "attractNode i ns =
     (let node = ns ! i
      in case parentId node of
           None \<Rightarrow> ns
         | Some pid \<Rightarrow>
             if pid = [] then ns
             else (case find (\<lambda>p. nodeId p = pid) ns of
                     None \<Rightarrow> ns
                   | Some parent \<Rightarrow>
                       (let dx = nodeX node - nodeX parent;
                            dy = nodeY node - nodeY parent;
                            distance = sqrt (dx * dx + dy * dy);
                            desiredDistance = (if level node = 1 then MAIN_RADIUS else CHILD_RADIUS)
                        in if distance > desiredDistance then
                             (let force = attractionStrength * (distance - desiredDistance);
                                  moveX = (dx / distance) * force;
                                  moveY = (dy / distance) * force
                              in if \<not> isFixed node
                                 then ns[i := node\<lparr>nodeX := nodeX node - moveX,
                                                    nodeY := nodeY node - moveY\<rparr>]
                                 else ns)
                           else ns)))"

lemma length_attractNode [simp]: "length (attractNode i ns) = length ns"
  by (simp add: attractNode_def Let_def split: option.split)

function attractLoop :: "nat \<Rightarrow> LayoutNode list \<Rightarrow> LayoutNode list" where
  "attractLoop i ns =
     (if i < length ns then attractLoop (Suc i) (attractNode i ns) else ns)"
  by pat_completeness auto
termination
  by (relation "measure (\<lambda>(i, ns). length ns - i)") auto

declare attractLoop.simps [simp del]

lemma length_attractLoop [simp]: "length (attractLoop i ns) = length ns"
  by (induction i ns rule: attractLoop.induct) (subst attractLoop.simps, simp)

definition relaxIter :: "LayoutNode list \<Rightarrow> LayoutNode list" where
  "relaxIter ns = attractLoop 0 (repelOuter 0 ns)"

function simulate :: "nat \<Rightarrow> LayoutNode list \<Rightarrow> LayoutNode list" where
  "simulate i ns = (if i < iterations then simulate (Suc i) (relaxIter ns) else ns)"
  by pat_completeness auto
termination
  by (relation "measure (\<lambda>(i, ns). iterations - i)") auto

declare simulate.simps [simp del]

definition calculateLayout :: "MindMapData \<Rightarrow> LayoutNode list" where
  "calculateLayout mindMapData = simulate 0 (seedNodes mindMapData)"


section \<open>Viewport (components/VisualizationModal.tsx)\<close>

text \<open>
  The state \<^verbatim>\<open>transform\<close> has the fields \<^verbatim>\<open>scale\<close>, \<^verbatim>\<open>x\<close> and \<^verbatim>\<open>y\<close>, here \<open>scale\<close>,
  \<open>transX\<close> and \<open>transY\<close>. Of a wheel event the handler reads \<^verbatim>\<open>deltaY\<close>, \<^verbatim>\<open>clientX\<close>,
  \<^verbatim>\<open>clientY\<close> and the bounding rectangle of the container (\<open>rectLeft\<close>, \<open>rectTop\<close>).
\<close>

record Transform =
  scale :: real
  transX :: real
  transY :: real

record WheelEvent =
  deltaY :: real
  clientX :: real
  clientY :: real
  rectLeft :: real
  rectTop :: real

definition handleWheel :: "Transform \<Rightarrow> WheelEvent \<Rightarrow> Transform" where
  "handleWheel transform e =
     (let zoomIntensity = 0.001;
          nextScale = scale transform - deltaY e * zoomIntensity;
          newScale = max 0.2 (min nextScale 2);
          mouseX = clientX e - rectLeft e;
          mouseY = clientY e - rectTop e;
          newX = mouseX - (mouseX - transX transform) * (newScale / scale transform);
          newY = mouseY - (mouseY - transY transform) * (newScale / scale transform)
      in \<lparr> scale = newScale, transX = newX, transY = newY \<rparr>)"

text \<open>
  The canvas is drawn with the style \<^verbatim>\<open>translate(x px, y px) scale(s)\<close>: a canvas point
  \<open>(wx, wy)\<close> appears in the container at \<open>(x + s * wx, y + s * wy)\<close>, the transform origin
  being the canvas's top-left corner (the reading under which the fit-to-container effect
  of the source centres the canvas). \<open>toWorld\<close> is the inverse map.
\<close>

definition toScreen :: "Transform \<Rightarrow> real \<times> real \<Rightarrow> real \<times> real" where
  "toScreen transform w =
     (transX transform + scale transform * fst w, transY transform + scale transform * snd w)"

definition toWorld :: "Transform \<Rightarrow> real \<times> real \<Rightarrow> real \<times> real" where
  "toWorld transform p =
     ((fst p - transX transform) / scale transform, (snd p - transY transform) / scale transform)"


section \<open>Dictation session (hooks/useSpeechRecognition.ts)\<close>

text \<open>
  The state of the hook: the React state \<^verbatim>\<open>isListening\<close>, \<^verbatim>\<open>transcript\<close> and \<^verbatim>\<open>error\<close>
  (here \<open>sttError\<close>), the refs \<^verbatim>\<open>listeningIntentionallyRef\<close> and \<^verbatim>\<open>retryTimeoutRef\<close>, and
  the variable \<^verbatim>\<open>retryCount\<close> of the effect's closure. \<^verbatim>\<open>window.setTimeout\<close> is modelled
  by the list \<open>timers\<close> of pending timers, each an id (positive, as in the browser) and
  its delay in milliseconds; the callback of every timer is \<^verbatim>\<open>startRecognition\<close>.
  Calls of \<^verbatim>\<open>recognition.start()\<close> and \<^verbatim>\<open>recognition.stop()\<close> go to the browser; whether
  \<^verbatim>\<open>start()\<close> throws is an argument of the handlers that call it.
\<close>

record Dictation =
  isListening :: bool
  transcript :: jsstring
  sttError :: "jsstring option"
  listeningIntentionally :: bool
  retryTimeoutRef :: "nat option"
  timers :: "(nat \<times> nat) list"
  nextTimerId :: nat
  retryCount :: nat

definition MAX_RETRIES :: nat where "MAX_RETRIES = 3"

definition clearTimeout :: "nat \<Rightarrow> (nat \<times> nat) list \<Rightarrow> (nat \<times> nat) list" where
  "clearTimeout tid ts = filter (\<lambda>t. fst t \<noteq> tid) ts"

text \<open>\<^verbatim>\<open>stopListening(finalError?)\<close>; the error is set when the argument is a non-empty string.\<close>

definition stopListening :: "jsstring option \<Rightarrow> Dictation \<Rightarrow> Dictation" where
  "stopListening finalError s =
     (let s1 = s\<lparr>listeningIntentionally := False\<rparr>;
          s2 = (case retryTimeoutRef s1 of
                  Some tid \<Rightarrow> s1\<lparr>timers := clearTimeout tid (timers s1), retryTimeoutRef := None\<rparr>
                | None \<Rightarrow> s1);
          s3 = s2\<lparr>isListening := False\<rparr>
      in case finalError of
           Some msg \<Rightarrow> (if msg \<noteq> [] then s3\<lparr>sttError := Some msg\<rparr> else s3)
         | None \<Rightarrow> s3)"

text \<open>\<^verbatim>\<open>startRecognition\<close>, the callback of the retry timer \<open>tid\<close>.\<close>

definition startRecognition :: "bool \<Rightarrow> Dictation \<Rightarrow> Dictation" where
  "startRecognition startThrows s =
     (if listeningIntentionally s then
        (if startThrows
         then stopListening (Some (js ''Speech recognition service failed to restart.'')) s
         else s)
      else s)"

definition timerFired :: "nat \<Rightarrow> bool \<Rightarrow> Dictation \<Rightarrow> Dictation" where
  "timerFired tid startThrows s =
     (if tid \<in> fst ` set (timers s)
      then startRecognition startThrows (s\<lparr>timers := clearTimeout tid (timers s)\<rparr>)
      else s)"

text \<open>
  \<^verbatim>\<open>recognition.onresult\<close>; the argument is the list of results from \<^verbatim>\<open>event.resultIndex\<close>
  on, each with its \<^verbatim>\<open>isFinal\<close> flag and the transcript of its first alternative.
\<close>

definition onresult :: "(bool \<times> jsstring) list \<Rightarrow> Dictation \<Rightarrow> Dictation" where
  "onresult results s =
     (let finalTranscript = concat (map snd (filter fst results))
      in s\<lparr>retryCount := 0,
            sttError := None,
            transcript := (if transcript s \<noteq> [] then transcript s @ js '' '' else []) @ finalTranscript\<rparr>)"

text \<open>\<^verbatim>\<open>recognition.onerror\<close>; the argument is \<^verbatim>\<open>event.error\<close>.\<close>

definition onerror :: "jsstring \<Rightarrow> Dictation \<Rightarrow> Dictation" where
  "onerror code s =
     (if code = js ''network'' \<and> listeningIntentionally s then
        (if retryCount s < MAX_RETRIES then
           (let rc = retryCount s + 1;
                retryDelay = 2 ^ (rc - 1) * 1000
            in s\<lparr>retryCount := rc,
                  sttError := Some (js ''Connection unstable. Retrying...''),
                  retryTimeoutRef := Some (nextTimerId s),
                  timers := timers s @ [(nextTimerId s, retryDelay)],
                  nextTimerId := nextTimerId s + 1\<rparr>)
         else stopListening
                (Some (js ''Network error. Please check your connection and try again.'')) s)
      else if code = js ''no-speech'' then
        stopListening (Some (js ''No speech was detected. Please try again.'')) s
      else if code = js ''not-allowed'' \<or> code = js ''service-not-allowed'' then
        stopListening
          (Some (js ''Microphone access denied. Please allow it in browser settings.'')) s
      else if code = js ''aborted'' then
        (if listeningIntentionally s
         then stopListening (Some (js ''Dictation was unexpectedly interrupted.'')) s
         else s)
      else stopListening (Some (js ''An unknown error occurred.'')) s)"

text \<open>\<^verbatim>\<open>recognition.onend\<close>.\<close>

definition onend :: "Dictation \<Rightarrow> Dictation" where
  "onend s = (if \<not> listeningIntentionally s then s\<lparr>isListening := False\<rparr> else s)"

text \<open>The hook's \<^verbatim>\<open>start\<close> and \<^verbatim>\<open>stop\<close>, and the state when the hook is mounted.\<close>

definition start :: "bool \<Rightarrow> Dictation \<Rightarrow> Dictation" where
  "start startThrows s =
     (if \<not> isListening s then
        (let s1 = s\<lparr>listeningIntentionally := True, sttError := None,
                    transcript := [], isListening := True\<rparr>
         in if startThrows
            then stopListening (Some (js ''Could not start speech recognition.'')) s1
            else s1)
      else s)"

definition stop :: "Dictation \<Rightarrow> Dictation" where
  "stop s = stopListening None s"

definition mounted :: Dictation where
  "mounted = \<lparr> isListening = False, transcript = [], sttError = None,
               listeningIntentionally = False, retryTimeoutRef = None,
               timers = [], nextTimerId = 1, retryCount = 0 \<rparr>"


section \<open>Document tree and editor (components/Editor.tsx)\<close>

subsection \<open>Strings: trim, startsWith, number to string\<close>

text \<open>
  \<^verbatim>\<open>String.prototype.trim\<close> removes the white space and line terminators of ECMAScript
  from both ends.
\<close>

definition isWhiteSpace :: "16 word \<Rightarrow> bool" where
  "isWhiteSpace c \<longleftrightarrow>
     c \<in> {9, 10, 11, 12, 13, 32, 160, 5760, 8232, 8233, 8239, 8287, 12288, 65279}
     \<or> (8192 \<le> c \<and> c \<le> 8202)"

definition trim :: "jsstring \<Rightarrow> jsstring" where
  "trim s = rev (dropWhile isWhiteSpace (rev (dropWhile isWhiteSpace s)))"

definition startsWith :: "jsstring \<Rightarrow> jsstring \<Rightarrow> bool" where
  "startsWith s p \<longleftrightarrow> take (length p) s = p"

text \<open>
  The decimal digits of a natural number, as the template literal \<^verbatim>\<open>`Header ${i + 1}`\<close>
  prints an integer below \<open>10\<^sup>2\<^sup>1\<close>.
\<close>

function decimal :: "nat \<Rightarrow> jsstring" where
  "decimal n = (if n < 10 then [of_nat (48 + n)] else decimal (n div 10) @ [of_nat (48 + n mod 10)])"
  by pat_completeness auto
termination
  by (relation "measure id") auto

declare decimal.simps [simp del]

definition numberToString :: "int \<Rightarrow> jsstring" where
  "numberToString i = (if i < 0 then js ''-'' @ decimal (nat (- i)) else decimal (nat i))"

subsection \<open>Nodes\<close>

text \<open>
  The nodes below the editor element: text nodes and elements with a tag, attributes and
  child nodes. \<open>textContent\<close> is the DOM property of that name.
\<close>

datatype dnode =
  Text jsstring
| Element (tag: string) (attrs: "(string \<times> string) list") (childNodes: "dnode list")

fun textContent :: "dnode \<Rightarrow> jsstring" where
  "textContent (Text s) = s"
| "textContent (Element t as cs) = concat (map textContent cs)"

fun isElement :: "dnode \<Rightarrow> bool" where
  "isElement (Text s) = False"
| "isElement (Element t as cs) = True"

definition br :: dnode where
  "br = Element ''br'' [] []"

text \<open>
  A boundary point of a range is a container and an offset; the container is given by the
  path of child indices that leads to it from the editor element (the empty path is the
  editor element itself). \<open>nodeAt\<close> resolves a non-empty path.
\<close>

type_synonym position = "nat list \<times> nat"

fun nodeAt :: "dnode list \<Rightarrow> nat list \<Rightarrow> dnode option" where
  "nodeAt cs [] = None"
| "nodeAt cs [i] = (if i < length cs then Some (cs ! i) else None)"
| "nodeAt cs (i # j # p) =
     (if i < length cs
      then (case cs ! i of Element t as ks \<Rightarrow> nodeAt ks (j # p) | Text s \<Rightarrow> None)
      else None)"

text \<open>
  \<^verbatim>\<open>getBlockContainer(node, editorRoot)\<close>: from the node (its parent, for a text node) walk
  up until the editor; the node whose parent is the editor is returned, if it is an element.
  The result is the index of that child of the editor.
\<close>

function walkUp :: "dnode list \<Rightarrow> nat list \<Rightarrow> nat option" where
  "walkUp editorRoot current =
     (if current \<noteq> [] then
        (if length current = 1
              \<and> (case nodeAt editorRoot current of Some n \<Rightarrow> isElement n | None \<Rightarrow> False)
         then Some (hd current)
         else walkUp editorRoot (butlast current))
      else None)"
  by pat_completeness auto
termination
  by (relation "measure (\<lambda>(editorRoot, current). length current)") auto

declare walkUp.simps [simp del]

definition getBlockContainer :: "dnode list \<Rightarrow> nat list \<Rightarrow> nat option" where
  "getBlockContainer editorRoot path =
     walkUp editorRoot
       (case nodeAt editorRoot path of Some (Text s) \<Rightarrow> butlast path | _ \<Rightarrow> path)"

subsection \<open>Editor state\<close>

text \<open>
  \<open>blocks\<close> are the child nodes of the editor element. \<open>selection\<close> is the start of the
  selection's first range (\<open>None\<close> when the selection has no range) and \<open>savedRange\<close> the
  start of the saved range; both lie inside the editor. \<open>slashMenuOpen\<close> and \<open>slashQuery\<close>
  are \<^verbatim>\<open>slashMenuState.isOpen\<close> and \<^verbatim>\<open>slashMenuState.query\<close>; \<open>noteContent\<close> is
  \<^verbatim>\<open>activeNote.content\<close>; \<open>consoleErrors\<close> collects what \<^verbatim>\<open>console.error\<close> prints. The
  state \<^verbatim>\<open>fullContext\<close>, a copy of the editor's rendered text handed to the assistant, is
  left out. Every element below the editor is an HTML element.
\<close>

datatype triggerMode = SelectionMode | EmptyLineMode

record Editor =
  blocks :: "dnode list"
  selection :: "position option"
  savedRange :: "position option"
  slashMenuOpen :: bool
  slashQuery :: jsstring
  aiTriggerMode :: triggerMode
  isAssistantOpen :: bool
  isTableModalOpen :: bool
  selectedText :: jsstring
  assistantPosition :: "(real \<times> real) option"
  noteContent :: jsstring
  consoleErrors :: "jsstring list"

text \<open>
  \<^verbatim>\<open>handleBlur\<close>: the tree is serialised by the Turndown library (an argument here) and
  stored when it differs from the note's content.
\<close>

definition handleBlur :: "(dnode list \<Rightarrow> jsstring) \<Rightarrow> Editor \<Rightarrow> Editor" where
  "handleBlur turndown ed =
     (let markdownContent = turndown (blocks ed)
      in if markdownContent \<noteq> noteContent ed then ed\<lparr>noteContent := markdownContent\<rparr> else ed)"

subsection \<open>Structural commands (SlashCommandMenu.tsx, handleCommandSelect)\<close>

datatype commandTag = H1 | H2 | H3 | Blockquote

datatype commandAction = AskAI | BulletedList | NumberedList | TodoList | CodeBlock | Table

datatype Command = TagCommand commandTag | ActionCommand commandAction

fun tagName :: "commandTag \<Rightarrow> string" where
  "tagName H1 = ''h1''"
| "tagName H2 = ''h2''"
| "tagName H3 = ''h3''"
| "tagName Blockquote = ''blockquote''"

text \<open>
  The menu (SlashCommandMenu.tsx): the commands in their declared order, the title of each,
  and \<^verbatim>\<open>filteredCommands\<close>, the commands the menu offers for a query. \<open>includesStr\<close> is
  \<^verbatim>\<open>String.prototype.includes\<close>; \<^verbatim>\<open>String.prototype.toLowerCase\<close> is an argument.
\<close>

fun title :: "Command \<Rightarrow> string" where
  "title (ActionCommand AskAI) = ''Ask AI''"
| "title (TagCommand H1) = ''Heading 1''"
| "title (TagCommand H2) = ''Heading 2''"
| "title (TagCommand H3) = ''Heading 3''"
| "title (ActionCommand BulletedList) = ''Bulleted list''"
| "title (ActionCommand NumberedList) = ''Numbered list''"
| "title (ActionCommand TodoList) = ''To-do list''"
| "title (TagCommand Blockquote) = ''Blockquote''"
| "title (ActionCommand CodeBlock) = ''Code block''"
| "title (ActionCommand Table) = ''Table''"

definition ALL_COMMANDS :: "Command list" where
  "ALL_COMMANDS =
     [ActionCommand AskAI, TagCommand H1, TagCommand H2, TagCommand H3,
      ActionCommand BulletedList, ActionCommand NumberedList, ActionCommand TodoList,
      TagCommand Blockquote, ActionCommand CodeBlock, ActionCommand Table]"

fun includesStr :: "jsstring \<Rightarrow> jsstring \<Rightarrow> bool" where
  "includesStr [] q = (q = [])"
| "includesStr (c # cs) q = (startsWith (c # cs) q \<or> includesStr cs q)"

definition filteredCommands :: "(jsstring \<Rightarrow> jsstring) \<Rightarrow> jsstring \<Rightarrow> Command list" where
  "filteredCommands toLowerCase query =
     (if query = [] then ALL_COMMANDS
      else filter (\<lambda>command. includesStr (toLowerCase (js (title command))) (toLowerCase query))
             ALL_COMMANDS)"

text \<open>
  The element a command creates, with the path of \<^verbatim>\<open>elementToFocus\<close> inside it and the
  offset of the cursor there; \<open>None\<close> for the two commands that open a dialog instead.
\<close>

fun createElement :: "Command \<Rightarrow> (dnode \<times> nat list \<times> nat) option" where
  "createElement (TagCommand t) = Some (Element (tagName t) [] [br], [], 0)"
| "createElement (ActionCommand AskAI) = None"
| "createElement (ActionCommand BulletedList) =
     Some (Element ''ul'' [] [Element ''li'' [] [br]], [0], 0)"
| "createElement (ActionCommand NumberedList) =
     Some (Element ''ol'' [] [Element ''li'' [] [br]], [0], 0)"
| "createElement (ActionCommand TodoList) =
     Some (Element ''ul'' [(''class'', ''todo-list'')]
             [Element ''li'' [(''class'', ''todo-list-item'')]
                [Element ''input'' [(''type'', ''checkbox'')] [], Text [160]]],
           [0], 2)"
| "createElement (ActionCommand CodeBlock) =
     Some (Element ''pre'' [] [Element ''code'' [] [br]], [0], 0)"
| "createElement (ActionCommand Table) = None"

text \<open>
  Removal of the trigger text: when the trimmed text of the current block starts with
  \<^verbatim>\<open>/\<close> followed by the query, the block's children are removed
  (\<^verbatim>\<open>currentBlock.innerHTML = ''\<close>); the range, which was inside the block, is then at the
  start of the emptied block.
\<close>

definition clearBlock :: "dnode \<Rightarrow> dnode" where
  "clearBlock b = (case b of Element t as cs \<Rightarrow> Element t as [] | Text s \<Rightarrow> Text s)"

definition stripTrigger ::
  "jsstring \<Rightarrow> nat option \<Rightarrow> dnode list \<Rightarrow> position \<Rightarrow> dnode list \<times> position" where
  "stripTrigger query currentBlock bs rng =
     (case currentBlock of
        Some i \<Rightarrow>
          if startsWith (trim (textContent (bs ! i))) (js ''/'' @ query)
          then (bs[i := clearBlock (bs ! i)], ([i], 0))
          else (bs, rng)
      | None \<Rightarrow> (bs, rng))"

definition handleCommandSelect :: "Command \<Rightarrow> Editor \<Rightarrow> Editor" where
  "handleCommandSelect command ed =
     (case selection ed of
        None \<Rightarrow> ed
      | Some range0 \<Rightarrow>
          (let currentBlock = getBlockContainer (blocks ed) (fst range0);
               (bs, rng) = stripTrigger (slashQuery ed) currentBlock (blocks ed) range0;
               isBlockEmpty = (case currentBlock of
                                 None \<Rightarrow> True
                               | Some i \<Rightarrow> trim (textContent (bs ! i)) = [])
           in case createElement command of
                None \<Rightarrow>
                  (case command of
                     ActionCommand AskAI \<Rightarrow>
                       ed\<lparr>blocks := bs, selection := Some rng, savedRange := Some rng,
                          aiTriggerMode := EmptyLineMode, isAssistantOpen := True,
                          slashMenuOpen := False\<rparr>
                   | _ \<Rightarrow>
                       ed\<lparr>blocks := bs, selection := Some rng, savedRange := Some rng,
                          isTableModalOpen := True, slashMenuOpen := False\<rparr>)
              | Some (newElement, focusPath, focusOffset) \<Rightarrow>
                  (case currentBlock of
                     Some i \<Rightarrow>
                       if isBlockEmpty
                       then ed\<lparr>blocks := bs[i := newElement],
                               selection := Some (i # focusPath, focusOffset),
                               slashMenuOpen := False\<rparr>
                       else ed\<lparr>blocks := take (Suc i) bs @ [newElement] @ drop (Suc i) bs,
                               selection := Some (Suc i # focusPath, focusOffset),
                               slashMenuOpen := False\<rparr>
                   | None \<Rightarrow>
                       ed\<lparr>blocks := bs @ [newElement],
                          selection := Some (length bs # focusPath, focusOffset),
                          slashMenuOpen := False\<rparr>)))"

subsection \<open>Table creation (handleCreateTable, TableGeneratorModal.tsx)\<close>

text \<open>The three loops that fill the header row, a body row and the table body.\<close>

function headCells :: "int \<Rightarrow> int \<Rightarrow> dnode list \<Rightarrow> dnode list" where
  "headCells cols i headRow =
     (if i < cols
      then headCells cols (i + 1)
             (headRow @ [Element ''th'' [] [Text (js ''Header '' @ numberToString (i + 1))]])
      else headRow)"
  by pat_completeness auto
termination
  by (relation "measure (\<lambda>(cols, i, headRow). nat (cols - i))") auto

function bodyCells :: "int \<Rightarrow> int \<Rightarrow> dnode list \<Rightarrow> dnode list" where
  "bodyCells cols j bodyRow =
     (if j < cols
      then bodyCells cols (j + 1) (bodyRow @ [Element ''td'' [] [br]])
      else bodyRow)"
  by pat_completeness auto
termination
  by (relation "measure (\<lambda>(cols, j, bodyRow). nat (cols - j))") auto

function bodyRows :: "int \<Rightarrow> int \<Rightarrow> int \<Rightarrow> dnode list \<Rightarrow> dnode list" where
  "bodyRows rows cols i tbody =
     (if i < rows
      then bodyRows rows cols (i + 1) (tbody @ [Element ''tr'' [] (bodyCells cols 0 [])])
      else tbody)"
  by pat_completeness auto
termination
  by (relation "measure (\<lambda>(rows, cols, i, tbody). nat (rows - i))") auto

declare headCells.simps [simp del] bodyCells.simps [simp del] bodyRows.simps [simp del]

definition createTable :: "int \<Rightarrow> int \<Rightarrow> dnode" where
  "createTable rows cols =
     Element ''table'' []
       [Element ''thead'' [] [Element ''tr'' [] (headCells cols 0 [])],
        Element ''tbody'' [] (bodyRows rows cols 0 [])]"

definition emptyParagraph :: dnode where
  "emptyParagraph = Element ''p'' [] [br]"

text \<open>
  \<^verbatim>\<open>range.insertNode(fragment)\<close> for a range that starts in the editor element itself or in
  a text node that is a child of the editor (the cases in which there is no current block):
  the nodes of the fragment are inserted at the offset, a text node being split there. The
  result is the new list of blocks and the index of the last inserted node. A range that
  starts in or below an element child of the editor has a current block and does not come
  here; the list is returned as it is for it.
\<close>

definition insertNodes :: "position \<Rightarrow> dnode list \<Rightarrow> dnode list \<Rightarrow> dnode list \<times> nat" where
  "insertNodes rng fragment bs =
     (case fst rng of
        [] \<Rightarrow> (take (snd rng) bs @ fragment @ drop (snd rng) bs,
               min (snd rng) (length bs) + length fragment - 1)
      | i # p \<Rightarrow>
          (case bs ! i of
             Text s \<Rightarrow>
               (take i bs @ [Text (take (snd rng) s)] @ fragment
                  @ [Text (drop (snd rng) s)] @ drop (Suc i) bs,
                i + length fragment)
           | Element t as cs \<Rightarrow> (bs, i)))"

datatype domException = IndexSizeError

text \<open>
  \<^verbatim>\<open>handleCreateTable({ rows, cols })\<close>. \<^verbatim>\<open>selection.getRangeAt(0)\<close> throws when there is
  neither a saved range nor a range in the selection; the state at the throw is returned on
  the left.
\<close>

definition handleCreateTable ::
  "(dnode list \<Rightarrow> jsstring) \<Rightarrow> int \<Rightarrow> int \<Rightarrow> Editor \<Rightarrow> (domException \<times> Editor) + Editor" where
  "handleCreateTable turndown rows cols ed =
     (let ed1 = ed\<lparr>isTableModalOpen := False\<rparr>;
          sel = (case savedRange ed1 of Some r \<Rightarrow> Some r | None \<Rightarrow> selection ed1)
      in case sel of
           None \<Rightarrow> Inl (IndexSizeError, ed1)
         | Some rng \<Rightarrow>
             (let currentBlock = getBlockContainer (blocks ed1) (fst rng);
                  bs = blocks ed1;
                  fragment = [createTable rows cols, emptyParagraph];
                  (bs', p) =
                    (case currentBlock of
                       Some i \<Rightarrow>
                         if trim (textContent (bs ! i)) = []
                         then (take i bs @ fragment @ drop (Suc i) bs, Suc i)
                         else (take (Suc i) bs @ fragment @ drop (Suc i) bs, Suc (Suc i))
                     | None \<Rightarrow> insertNodes rng fragment bs)
              in Inr (handleBlur turndown
                        (ed1\<lparr>blocks := bs', selection := Some ([p], 0), savedRange := None\<rparr>))))"

text \<open>
  The dialog: its state \<^verbatim>\<open>rows\<close>, \<^verbatim>\<open>cols\<close> (here \<open>modalRows\<close>, \<open>modalCols\<close>; initially 3
  and 3), the two \<^verbatim>\<open>onChange\<close> handlers and \<^verbatim>\<open>handleSubmit\<close>. The argument of a change handler is the value of
  \<^verbatim>\<open>parseInt(e.target.value, 10)\<close>, \<open>None\<close> for \<^verbatim>\<open>NaN\<close>; \<^verbatim>\<open>v || 1\<close> is 1 for \<^verbatim>\<open>NaN\<close> and for 0.
  \<open>handleSubmit\<close> returns \<open>None\<close> when it does not call \<^verbatim>\<open>onCreateTable\<close>.
\<close>

record TableModal =
  modalRows :: int
  modalCols :: int

definition initialTableModal :: TableModal where
  "initialTableModal = \<lparr> modalRows = 3, modalCols = 3 \<rparr>"

definition orOne :: "int option \<Rightarrow> int" where
  "orOne v = (case v of None \<Rightarrow> 1 | Some n \<Rightarrow> if n = 0 then 1 else n)"

definition onChangeRows :: "int option \<Rightarrow> TableModal \<Rightarrow> TableModal" where
  "onChangeRows v m = m\<lparr>modalRows := max 1 (orOne v)\<rparr>"

definition onChangeCols :: "int option \<Rightarrow> TableModal \<Rightarrow> TableModal" where
  "onChangeCols v m = m\<lparr>modalCols := max 1 (orOne v)\<rparr>"

definition handleSubmit ::
  "(dnode list \<Rightarrow> jsstring) \<Rightarrow> TableModal \<Rightarrow> Editor \<Rightarrow> ((domException \<times> Editor) + Editor) option" where
  "handleSubmit turndown m ed =
     (if modalRows m > 0 \<and> modalCols m > 0
      then Some (handleCreateTable turndown (modalRows m) (modalCols m) ed)
      else None)"

text \<open>
  Table creation as the user reaches it: the two dimension inputs are entered in the
  dialog (opened in its initial state) and the form is submitted.
\<close>

definition insertTable ::
  "(dnode list \<Rightarrow> jsstring) \<Rightarrow> int \<Rightarrow> int \<Rightarrow> Editor \<Rightarrow> ((domException \<times> Editor) + Editor) option" where
  "insertTable turndown rowsInput colsInput ed =
     handleSubmit turndown
       (onChangeCols (Some colsInput) (onChangeRows (Some rowsInput) initialTableModal)) ed"


section \<open>AI requests (handleAiRequest in Editor.tsx, handleAction in AIAssistant.tsx)\<close>

text \<open>
  The functions of the AI service return a promise; \<open>serviceOutcome\<close> is what awaiting it
  gives: the text, or the message of the \<^verbatim>\<open>Error\<close> the service throws. Of the action only
  whether it is \<^verbatim>\<open>'askAI'\<close> matters to the handler; every other key of the service is a
  function and is called with the context.
\<close>

datatype serviceOutcome = Resolved jsstring | Rejected jsstring

datatype aiAction = AskAiAction | ServiceAction string

text \<open>
  \<^verbatim>\<open>handleAiRequest(action, customPrompt)\<close>. The browser's \<^verbatim>\<open>range.deleteContents()\<close> followed
  by \<^verbatim>\<open>range.insertNode(document.createTextNode(result))\<close> on the saved range is the
  argument \<open>replaceRange\<close>, the assignment
  \<^verbatim>\<open>editor.innerHTML += `<br>${marked.parse(result)}`\<close> the argument \<open>appendMarkdown\<close>. The
  result is the new state and the reason with which the returned promise is rejected
  (\<open>None\<close>: it is fulfilled).
\<close>

definition handleAiRequest ::
  "(dnode list \<Rightarrow> jsstring) \<Rightarrow> (position \<Rightarrow> jsstring \<Rightarrow> dnode list \<Rightarrow> dnode list)
   \<Rightarrow> (jsstring \<Rightarrow> dnode list \<Rightarrow> dnode list)
   \<Rightarrow> aiAction \<Rightarrow> jsstring \<Rightarrow> serviceOutcome \<Rightarrow> Editor \<Rightarrow> Editor \<times> jsstring option" where
  "handleAiRequest turndown replaceRange appendMarkdown action customPrompt outcome ed =
     (let ed1 = ed\<lparr>isAssistantOpen := False\<rparr>;
          tried =
            (if (action = AskAiAction \<and> customPrompt \<noteq> []) \<or> action \<noteq> AskAiAction
             then (case outcome of Resolved r \<Rightarrow> Inr r | Rejected e \<Rightarrow> Inl e)
             else Inr []);
          ed2 =
            (case tried of
               Inr result \<Rightarrow>
                 handleBlur turndown
                   (case savedRange ed1 of
                      Some r \<Rightarrow> ed1\<lparr>blocks := replaceRange r result (blocks ed1),
                                   selection := Some r, savedRange := None\<rparr>
                    | None \<Rightarrow> ed1\<lparr>blocks := appendMarkdown result (blocks ed1)\<rparr>)
             | Inl e \<Rightarrow>
                 ed1\<lparr>consoleErrors := consoleErrors ed1 @ [js ''AI request failed: '' @ e]\<rparr>)
      in (ed2\<lparr>selectedText := [], assistantPosition := None, savedRange := None\<rparr>, None))"

text \<open>
  The assistant dialog: its state \<^verbatim>\<open>prompt\<close>, \<^verbatim>\<open>isLoading\<close> and \<^verbatim>\<open>error\<close> (here \<open>aiError\<close>)
  and \<^verbatim>\<open>handleAction(action, customPromptOverride)\<close>, whose \<^verbatim>\<open>onSubmit\<close> is
  \<open>handleAiRequest\<close>.
\<close>

record Assistant =
  prompt :: jsstring
  isLoading :: bool
  aiError :: "jsstring option"

definition handleAction ::
  "(dnode list \<Rightarrow> jsstring) \<Rightarrow> (position \<Rightarrow> jsstring \<Rightarrow> dnode list \<Rightarrow> dnode list)
   \<Rightarrow> (jsstring \<Rightarrow> dnode list \<Rightarrow> dnode list)
   \<Rightarrow> aiAction \<Rightarrow> jsstring option \<Rightarrow> serviceOutcome \<Rightarrow> Assistant \<times> Editor
   \<Rightarrow> Assistant \<times> Editor" where
  "handleAction turndown replaceRange appendMarkdown action customPromptOverride outcome st =
     (let a1 = (fst st)\<lparr>isLoading := True, aiError := None\<rparr>;
          customPrompt = (case customPromptOverride of
                            Some p \<Rightarrow> if p \<noteq> [] then p else prompt (fst st)
                          | None \<Rightarrow> prompt (fst st));
          (ed', rejection) =
            handleAiRequest turndown replaceRange appendMarkdown action customPrompt outcome (snd st)
      in case rejection of
           None \<Rightarrow> (a1, ed')
         | Some msg \<Rightarrow> (a1\<lparr>aiError := Some msg, isLoading := False\<rparr>, ed'))"

text \<open>
  What the user sees of a failed request: the editor renders the assistant only while
  \<open>isAssistantOpen\<close>, and the assistant shows its error when it is not loading. The editor
  itself renders no message for AI requests.
\<close>

definition visibleAiError :: "Assistant \<times> Editor \<Rightarrow> jsstring option" where
  "visibleAiError st =
     (if isAssistantOpen (snd st) \<and> \<not> isLoading (fst st) then aiError (fst st) else None)"


section \<open>Vocabulary of the properties\<close>

text \<open>
  \<open>keepsFixed ns ns'\<close>: the lists have the same length, every node keeps its id and its
  fixed flag, and every fixed node keeps its position.
\<close>

definition keepsFixed :: "LayoutNode list \<Rightarrow> LayoutNode list \<Rightarrow> bool" where
  "keepsFixed ns ns' \<longleftrightarrow>
     length ns' = length ns
     \<and> (\<forall>i<length ns. isFixed (ns' ! i) = isFixed (ns ! i)
            \<and> nodeId (ns' ! i) = nodeId (ns ! i)
            \<and> (isFixed (ns ! i) \<longrightarrow> nodeX (ns' ! i) = nodeX (ns ! i) \<and> nodeY (ns' ! i) = nodeY (ns ! i)))"

text \<open>
  A graph with one main topic \<open>m\<close> that has the two children \<open>a\<close> and \<open>b\<close>, and the angle
  from the canvas centre of the seeded position of \<open>a\<close>.
\<close>

definition twoChildren :: MindMapData where
  "twoChildren =
     \<lparr> centralTopic = js ''T'',
       nodes = [MindMapNode (js ''m'') (js ''M'')
                  (Some [MindMapNode (js ''a'') (js ''A'') None,
                         MindMapNode (js ''b'') (js ''B'') None])] \<rparr>"

definition theta :: real where
  "theta = arctan (- (100 * sin (1/4)) / (300 + 100 * cos (1/4)))"

text \<open>
  A position is valid when its container exists and its offset is within the container. The
  cursor context of table creation is the saved range if there is one, else the selection.
\<close>

definition validPosition :: "dnode list \<Rightarrow> position \<Rightarrow> bool" where
  "validPosition bs pos \<longleftrightarrow>
     (case fst pos of
        [] \<Rightarrow> snd pos \<le> length bs
      | i # p \<Rightarrow>
          (case nodeAt bs (fst pos) of
             None \<Rightarrow> False
           | Some (Text s) \<Rightarrow> snd pos \<le> length s
           | Some (Element t as cs) \<Rightarrow> snd pos \<le> length cs))"

definition cursorContext :: "Editor \<Rightarrow> position option" where
  "cursorContext ed = (case savedRange ed of Some r \<Rightarrow> Some r | None \<Rightarrow> selection ed)"

text \<open>
  Three editor states: one paragraph holding the trigger text \<^verbatim>\<open>/h1\<close> with the cursor
  after it and the menu open on the query \<^verbatim>\<open>h1\<close>; one paragraph holding \<^verbatim>\<open>hello\<close> with the
  cursor at its end and the empty query; and the paragraph \<^verbatim>\<open>hello\<close> after the user has typed
  \<^verbatim>\<open>/\<close> at its start: the text is \<^verbatim>\<open>/hello\<close>, the cursor is behind the slash, the text
  before the cursor is the trigger \<^verbatim>\<open>/\<close> and the menu is open on the empty query.
\<close>

definition slashH1 :: Editor where
  "slashH1 =
     \<lparr> blocks = [Element ''p'' [] [Text (js ''/h1'')]],
       selection = Some ([0, 0], 3),
       savedRange = None,
       slashMenuOpen = True,
       slashQuery = js ''h1'',
       aiTriggerMode = SelectionMode,
       isAssistantOpen = False,
       isTableModalOpen = False,
       selectedText = [],
       assistantPosition = None,
       noteContent = [],
       consoleErrors = [] \<rparr>"

definition helloBlock :: Editor where
  "helloBlock = slashH1\<lparr>blocks := [Element ''p'' [] [Text (js ''hello'')]],
                       selection := Some ([0, 0], 5), slashQuery := []\<rparr>"

definition slashHello :: Editor where
  "slashHello = slashH1\<lparr>blocks := [Element ''p'' [] [Text (js ''/hello'')]],
                       selection := Some ([0, 0], 1), slashQuery := []\<rparr>"

text \<open>
  A dictation session that fails: the hook is mounted, the user starts dictation, and four
  network errors arrive with no result in between, each retry timer firing and restarting
  the recognition before the next error.
\<close>

definition failedSession :: Dictation where
  "failedSession =
     onerror (js ''network'')
       (timerFired 3 False
          (onerror (js ''network'')
             (timerFired 2 False
                (onerror (js ''network'')
                   (timerFired 1 False
                      (onerror (js ''network'') (start False mounted)))))))"

section \<open>Properties of the mind-map layout\<close>

subsection \<open>Fixed nodes\<close>

lemma keepsFixed_refl: "keepsFixed ns ns"
  by (simp add: keepsFixed_def)

lemma keepsFixed_trans: "keepsFixed a b \<Longrightarrow> keepsFixed b c \<Longrightarrow> keepsFixed a c"
  by (simp add: keepsFixed_def)

lemma keepsFixed_move:
  assumes "i < length ns \<Longrightarrow> \<not> isFixed (ns ! i)"
  shows "keepsFixed ns (ns[i := (ns ! i)\<lparr>nodeX := a, nodeY := b\<rparr>])"
proof (cases "i < length ns")
  case True
  with assms show ?thesis
    by (auto simp: keepsFixed_def nth_list_update)
next
  case False
  then show ?thesis by (simp add: keepsFixed_def)
qed

lemma keepsFixed_repelPair: "keepsFixed ns (repelPair j k ns)"
proof -
  define dx where "dx = nodeX (ns ! j) - nodeX (ns ! k)"
  define dy where "dy = nodeY (ns ! j) - nodeY (ns ! k)"
  define distance where
    "distance = (if sqrt (dx * dx + dy * dy) = 0 then 0.1 else sqrt (dx * dx + dy * dy))"
  define minDistance where
    "minDistance = width (ns ! j) / 2 + width (ns ! k) / 2
                   + (if level (ns ! j) = 2 \<and> level (ns ! k) = 2 then 15 else 30 :: real)"
  define force where "force = repulsionStrength * (minDistance - distance) / distance"
  define ns1 where
    "ns1 = (if \<not> isFixed (ns ! j)
            then ns[j := (ns ! j)\<lparr>nodeX := nodeX (ns ! j) + dx * force,
                                   nodeY := nodeY (ns ! j) + dy * force\<rparr>]
            else ns)"
  define ns2 where
    "ns2 = (if \<not> isFixed (ns ! k)
            then ns1[k := (ns1 ! k)\<lparr>nodeX := nodeX (ns1 ! k) - dx * force,
                                     nodeY := nodeY (ns1 ! k) - dy * force\<rparr>]
            else ns1)"
  have r: "repelPair j k ns = (if distance < minDistance then ns2 else ns)"
    unfolding repelPair_def Let_def ns2_def ns1_def force_def minDistance_def distance_def
      dx_def dy_def ..
  have k1: "keepsFixed ns ns1"
    unfolding ns1_def using keepsFixed_move [of j ns] keepsFixed_refl [of ns] by simp
  have "keepsFixed ns1 ns2"
  proof (cases "isFixed (ns ! k)")
    case True
    then show ?thesis by (simp add: ns2_def keepsFixed_refl)
  next
    case False
    have "k < length ns1 \<Longrightarrow> \<not> isFixed (ns1 ! k)"
      using k1 False by (simp add: keepsFixed_def)
    then have "keepsFixed ns1 (ns1[k := (ns1 ! k)\<lparr>nodeX := nodeX (ns1 ! k) - dx * force,
                                     nodeY := nodeY (ns1 ! k) - dy * force\<rparr>])"
      by (rule keepsFixed_move)
    with False show ?thesis by (simp add: ns2_def)
  qed
  with k1 have "keepsFixed ns ns2" by (rule keepsFixed_trans)
  with r show ?thesis by (simp add: keepsFixed_refl)
qed

lemma keepsFixed_repelInner: "keepsFixed ns (repelInner j k ns)"
proof (induction j k ns rule: repelInner.induct)
  case (1 j k ns)
  show ?case
  proof (cases "k < length ns")
    case True
    with 1 have "keepsFixed (repelPair j k ns) (repelInner j (Suc k) (repelPair j k ns))"
      by simp
    with keepsFixed_repelPair [of ns j k] have "keepsFixed ns (repelInner j (Suc k) (repelPair j k ns))"
      by (rule keepsFixed_trans)
    with True show ?thesis by (subst repelInner.simps) simp
  next
    case False
    then show ?thesis by (subst repelInner.simps) (simp add: keepsFixed_refl)
  qed
qed

lemma keepsFixed_repelOuter: "keepsFixed ns (repelOuter j ns)"
proof (induction j ns rule: repelOuter.induct)
  case (1 j ns)
  show ?case
  proof (cases "j < length ns")
    case True
    with 1 have "keepsFixed (repelInner j (Suc j) ns) (repelOuter (Suc j) (repelInner j (Suc j) ns))"
      by simp
    with keepsFixed_repelInner [of ns j "Suc j"] have "keepsFixed ns (repelOuter (Suc j) (repelInner j (Suc j) ns))"
      by (rule keepsFixed_trans)
    with True show ?thesis by (subst repelOuter.simps) simp
  next
    case False
    then show ?thesis by (subst repelOuter.simps) (simp add: keepsFixed_refl)
  qed
qed

lemma attractNode_cases:
  "attractNode i ns = ns
   \<or> (\<not> isFixed (ns ! i) \<and> (\<exists>a b. attractNode i ns = ns[i := (ns ! i)\<lparr>nodeX := a, nodeY := b\<rparr>]))"
  by (auto simp: attractNode_def Let_def split: option.split)

lemma keepsFixed_attractNode: "keepsFixed ns (attractNode i ns)"
  using attractNode_cases [of i ns] keepsFixed_move [of i ns] keepsFixed_refl [of ns]
  by auto

lemma keepsFixed_attractLoop: "keepsFixed ns (attractLoop i ns)"
proof (induction i ns rule: attractLoop.induct)
  case (1 i ns)
  show ?case
  proof (cases "i < length ns")
    case True
    with 1 have "keepsFixed (attractNode i ns) (attractLoop (Suc i) (attractNode i ns))"
      by simp
    with keepsFixed_attractNode [of ns i] have "keepsFixed ns (attractLoop (Suc i) (attractNode i ns))"
      by (rule keepsFixed_trans)
    with True show ?thesis by (subst attractLoop.simps) simp
  next
    case False
    then show ?thesis by (subst attractLoop.simps) (simp add: keepsFixed_refl)
  qed
qed

lemma keepsFixed_relaxIter: "keepsFixed ns (relaxIter ns)"
  unfolding relaxIter_def
  by (rule keepsFixed_trans [OF keepsFixed_repelOuter keepsFixed_attractLoop])

lemma keepsFixed_funpow: "keepsFixed ns ((relaxIter ^^ k) ns)"
proof (induction k)
  case 0
  show ?case by (simp add: keepsFixed_refl)
next
  case (Suc k)
  have "keepsFixed ((relaxIter ^^ k) ns) (relaxIter ((relaxIter ^^ k) ns))"
    by (rule keepsFixed_relaxIter)
  with Suc show ?case by (simp add: keepsFixed_trans)
qed

lemma simulate_funpow: "simulate i ns = (relaxIter ^^ (iterations - i)) ns"
proof (induction i ns rule: simulate.induct)
  case (1 i ns)
  show ?case
  proof (cases "i < iterations")
    case True
    then have "iterations - i = Suc (iterations - Suc i)" by simp
    with 1 True show ?thesis
      by (subst simulate.simps) (simp add: funpow_swap1)
  next
    case False
    then show ?thesis by (subst simulate.simps) simp
  qed
qed

lemma pushChild_append:
  "\<exists>n. pushChild mainId cnt j c acc = acc @ [n] \<and> \<not> isFixed n"
  by (simp add: pushChild_def Let_def)

lemma seedChildren_append:
  "\<exists>rest. seedChildren mainId cnt j cs acc = acc @ rest \<and> (\<forall>n\<in>set rest. \<not> isFixed n)"
proof (induction cs arbitrary: j acc)
  case Nil
  show ?case by simp
next
  case (Cons c cs)
  obtain n where n: "pushChild mainId cnt j c acc = acc @ [n]" "\<not> isFixed n"
    using pushChild_append by blast
  obtain rest where "seedChildren mainId cnt (Suc j) cs (acc @ [n]) = (acc @ [n]) @ rest"
    "\<forall>m\<in>set rest. \<not> isFixed m"
    using Cons.IH by blast
  with n show ?case by (intro exI [of _ "n # rest"]) simp
qed

lemma seedMains_append:
  "\<exists>rest. seedMains cnt i ms acc = acc @ rest \<and> (\<forall>n\<in>set rest. \<not> isFixed n)"
proof (induction ms arbitrary: i acc)
  case Nil
  show ?case by simp
next
  case (Cons m ms)
  define step where "step = (let pushed = pushMain cnt i m acc
        in case children m of None \<Rightarrow> pushed
           | Some cs \<Rightarrow> seedChildren (mmId m) (length cs) 0 cs pushed)"
  obtain n where n: "pushMain cnt i m acc = acc @ [n]" "\<not> isFixed n"
    by (simp add: pushMain_def Let_def)
  have "\<exists>r1. step = acc @ r1 \<and> (\<forall>n\<in>set r1. \<not> isFixed n)"
  proof (cases "children m")
    case None
    with n show ?thesis by (simp add: step_def)
  next
    case (Some cs)
    obtain r where "seedChildren (mmId m) (length cs) 0 cs (acc @ [n]) = (acc @ [n]) @ r"
      "\<forall>m\<in>set r. \<not> isFixed m"
      using seedChildren_append by blast
    with n Some show ?thesis by (intro exI [of _ "n # r"]) (simp add: step_def)
  qed
  then obtain r1 where r1: "step = acc @ r1" "\<forall>n\<in>set r1. \<not> isFixed n" by blast
  obtain r2 where "seedMains cnt (Suc i) ms (acc @ r1) = (acc @ r1) @ r2" "\<forall>n\<in>set r2. \<not> isFixed n"
    using Cons.IH by blast
  with r1 show ?case by (intro exI [of _ "r1 @ r2"]) (auto simp: step_def [symmetric])
qed

lemma seedNodes_shape:
  "\<exists>rest. seedNodes g = centralNode g # rest \<and> (\<forall>n\<in>set rest. \<not> isFixed n)"
  using seedMains_append [of "length (nodes g)" 0 "nodes g" "[centralNode g]"]
  by (simp add: seedNodes_def)


text \<open>
  C7. The layout is the seeded list after \<open>iterations = 150\<close> relaxation iterations. After
  seeding and after each of the iterations the first node is the central node, it is fixed
  and it sits at the canvas centre \<open>(500, 500)\<close>; no other node is fixed. One relaxation
  iteration (all repulsion updates, then all attraction updates) moves no node whose fixed
  flag is set, whatever the node list.
\<close>

theorem central_node_stays_at_center:
  "calculateLayout g = (relaxIter ^^ iterations) (seedNodes g)
   \<and> (\<forall>k\<le>iterations.
        (relaxIter ^^ k) (seedNodes g) \<noteq> []
        \<and> nodeId ((relaxIter ^^ k) (seedNodes g) ! 0) = js ''central''
        \<and> isFixed ((relaxIter ^^ k) (seedNodes g) ! 0)
        \<and> nodeX ((relaxIter ^^ k) (seedNodes g) ! 0) = 500
        \<and> nodeY ((relaxIter ^^ k) (seedNodes g) ! 0) = 500
        \<and> (\<forall>i<length ((relaxIter ^^ k) (seedNodes g)).
              isFixed ((relaxIter ^^ k) (seedNodes g) ! i) \<longrightarrow> i = 0))
   \<and> (\<forall>ns. \<forall>i<length ns. isFixed (ns ! i) \<longrightarrow>
          isFixed (relaxIter ns ! i)
          \<and> nodeX (relaxIter ns ! i) = nodeX (ns ! i)
          \<and> nodeY (relaxIter ns ! i) = nodeY (ns ! i))"
proof (intro conjI allI impI)
  show "calculateLayout g = (relaxIter ^^ iterations) (seedNodes g)"
    by (simp add: calculateLayout_def simulate_funpow)
next
  fix ns :: "LayoutNode list" and i
  assume "i < length ns" "isFixed (ns ! i)"
  with keepsFixed_relaxIter [of ns]
  show "isFixed (relaxIter ns ! i)" "nodeX (relaxIter ns ! i) = nodeX (ns ! i)"
    "nodeY (relaxIter ns ! i) = nodeY (ns ! i)"
    by (simp_all add: keepsFixed_def)
next
  fix k
  obtain rest where s: "seedNodes g = centralNode g # rest" "\<forall>n\<in>set rest. \<not> isFixed n"
    using seedNodes_shape by blast
  have kf: "keepsFixed (seedNodes g) ((relaxIter ^^ k) (seedNodes g))"
    by (rule keepsFixed_funpow)
  then have len: "length ((relaxIter ^^ k) (seedNodes g)) = Suc (length rest)"
    by (simp add: keepsFixed_def s)
  then show "(relaxIter ^^ k) (seedNodes g) \<noteq> []" by auto
  from kf s have z: "isFixed ((relaxIter ^^ k) (seedNodes g) ! 0) = isFixed (centralNode g)"
    "nodeId ((relaxIter ^^ k) (seedNodes g) ! 0) = nodeId (centralNode g)"
    "nodeX ((relaxIter ^^ k) (seedNodes g) ! 0) = nodeX (centralNode g)"
    "nodeY ((relaxIter ^^ k) (seedNodes g) ! 0) = nodeY (centralNode g)"
    by (auto simp: keepsFixed_def centralNode_def)
  then show "nodeId ((relaxIter ^^ k) (seedNodes g) ! 0) = js ''central''"
    "isFixed ((relaxIter ^^ k) (seedNodes g) ! 0)"
    "nodeX ((relaxIter ^^ k) (seedNodes g) ! 0) = 500"
    "nodeY ((relaxIter ^^ k) (seedNodes g) ! 0) = 500"
    by (simp_all add: centralNode_def CENTER_X_def CENTER_Y_def)
  fix i
  assume i: "i < length ((relaxIter ^^ k) (seedNodes g))"
    and f: "isFixed ((relaxIter ^^ k) (seedNodes g) ! i)"
  show "i = 0"
  proof (rule ccontr)
    assume "i \<noteq> 0"
    then obtain i' where i': "i = Suc i'" by (cases i) auto
    with i len have "i' < length rest" by simp
    with s have "\<not> isFixed (seedNodes g ! i)" by (simp add: i')
    moreover from kf i len s have "isFixed ((relaxIter ^^ k) (seedNodes g) ! i) = isFixed (seedNodes g ! i)"
      by (simp add: keepsFixed_def)
    ultimately show False using f by simp
  qed
qed

theorem central_node_stays_at_center_witness:
  "(2::nat) \<le> iterations
   \<and> nodeX ((relaxIter ^^ 2) (seedNodes \<lparr>centralTopic = js ''T'',
          nodes = [MindMapNode (js ''a'') (js ''A'') None]\<rparr>) ! 0) = 500
   \<and> nodeY ((relaxIter ^^ 2) (seedNodes \<lparr>centralTopic = js ''T'',
          nodes = [MindMapNode (js ''a'') (js ''A'') None]\<rparr>) ! 0) = 500
   \<and> isFixed ([centralNode \<lparr>centralTopic = js ''T'', nodes = []\<rparr>] ! 0)
   \<and> nodeX (relaxIter [centralNode \<lparr>centralTopic = js ''T'', nodes = []\<rparr>] ! 0) = 500"
proof -
  have k: "(2::nat) \<le> iterations" by (simp add: iterations_def)
  have f: "isFixed ([centralNode \<lparr>centralTopic = js ''T'', nodes = []\<rparr>] ! 0)"
    by (simp add: centralNode_def)
  have l: "0 < length [centralNode \<lparr>centralTopic = js ''T'', nodes = []\<rparr>]" by simp
  note t = central_node_stays_at_center
    [of "\<lparr>centralTopic = js ''T'', nodes = [MindMapNode (js ''a'') (js ''A'') None]\<rparr>"]
  from t k have "nodeX ((relaxIter ^^ 2) (seedNodes \<lparr>centralTopic = js ''T'',
          nodes = [MindMapNode (js ''a'') (js ''A'') None]\<rparr>) ! 0) = 500"
    and "nodeY ((relaxIter ^^ 2) (seedNodes \<lparr>centralTopic = js ''T'',
          nodes = [MindMapNode (js ''a'') (js ''A'') None]\<rparr>) ! 0) = 500"
    by blast+
  moreover from t l f
  have "nodeX (relaxIter [centralNode \<lparr>centralTopic = js ''T'', nodes = []\<rparr>] ! 0)
        = nodeX ([centralNode \<lparr>centralTopic = js ''T'', nodes = []\<rparr>] ! 0)"
    by blast
  ultimately show ?thesis using k f by (simp add: centralNode_def CENTER_X_def)
qed

subsection \<open>Seeding of the children\<close>

text \<open>
  Every child is seeded at distance \<open>CHILD_RADIUS\<close> from the node pushed just before it.
  For the first child of a main topic that node is the main topic; for every later child it
  is the previous sibling.
\<close>

lemma circle_point: "(r * cos a)\<^sup>2 + (r * sin a)\<^sup>2 = r\<^sup>2" for r a :: real
proof -
  have "(r * cos a)\<^sup>2 + (r * sin a)\<^sup>2 = r\<^sup>2 * ((cos a)\<^sup>2 + (sin a)\<^sup>2)"
    by (simp only: power_mult_distrib distrib_left)
  also have "\<dots> = r\<^sup>2"
    by (simp only: sin_cos_squared_add2 mult_1_right)
  finally show ?thesis .
qed

lemma pushChild_on_circle_of_last:
  "(nodeX (last (pushChild mainId n j c ns)) - nodeX (last ns))\<^sup>2
   + (nodeY (last (pushChild mainId n j c ns)) - nodeY (last ns))\<^sup>2 = CHILD_RADIUS\<^sup>2"
  by (simp add: pushChild_def Let_def circle_point)

lemma chord: "(cos a + cos b)\<^sup>2 + (sin b - sin a)\<^sup>2 = 2 + 2 * cos (a + b)" for a b :: real
proof -
  have "(cos a + cos b)\<^sup>2 + (sin b - sin a)\<^sup>2
        = (cos a * cos a + sin a * sin a) + (cos b * cos b + sin b * sin b)
          + 2 * (cos a * cos b - sin a * sin b)"
    by (simp only: power2_eq_square algebra_simps)
  also have "\<dots> = 1 + 1 + 2 * cos (a + b)"
    by (simp only: sin_cos_squared_add3 cos_add)
  finally show ?thesis by simp
qed

lemma seed_main: "nodeX (seedNodes twoChildren ! 1) = 800 \<and> nodeY (seedNodes twoChildren ! 1) = 500
  \<and> nodeId (seedNodes twoChildren ! 1) = js ''m'' \<and> parentId (seedNodes twoChildren ! 3) = Some (js ''m'')
  \<and> length (seedNodes twoChildren) = 4"
  by (simp add: seedNodes_def twoChildren_def pushMain_def pushChild_def Let_def
      CENTER_X_def CENTER_Y_def MAIN_RADIUS_def)

lemma seed_child1:
  "nodeX (seedNodes twoChildren ! 3) = 800 + 100 * cos (1/4) + 100 * cos (theta + 1/4)
   \<and> nodeY (seedNodes twoChildren ! 3) = 500 - 100 * sin (1/4) + 100 * sin (theta + 1/4)"
proof -
  have p: "0 < 300 + 100 * cos (1/4 :: real)"
    using cos_ge_minus_one [of "1/4 :: real"] by linarith
  show ?thesis using p
  by (simp add: seedNodes_def twoChildren_def pushMain_def pushChild_def Let_def
      CENTER_X_def CENTER_Y_def MAIN_RADIUS_def CHILD_RADIUS_def atan2_def theta_def)
qed


lemma theta_range: "- (pi / 2) < theta + 1/2 \<and> theta + 1/2 < pi / 2"
proof -
  have s: "0 < sin (1/4 :: real)"
    by (rule sin_gt_zero) (use pi_ge_two in simp_all)
  have c: "0 < 300 + 100 * cos (1/4 :: real)"
    using cos_ge_minus_one [of "1/4 :: real"] by linarith
  from s c have "- (100 * sin (1/4 :: real)) / (300 + 100 * cos (1/4)) < 0"
    by (simp add: divide_neg_pos)
  then have "theta < 0"
    unfolding theta_def by (simp only: arctan_less_zero_iff)
  moreover have "- (pi / 2) < theta"
    unfolding theta_def by (rule arctan_lbound)
  ultimately show ?thesis using pi_ge_two by simp
qed

text \<open>
  C1 at the graph \<open>twoChildren\<close> (one main topic \<open>m\<close> with the children \<open>a\<close> and \<open>b\<close>): the
  seeded list is central, \<open>m\<close>, \<open>a\<close>, \<open>b\<close>; the parent of \<open>b\<close> is \<open>m\<close>, and the squared
  distance of \<open>b\<close> from the seeded position of \<open>m\<close> exceeds \<open>2 * CHILD_RADIUS\<^sup>2\<close>, so \<open>b\<close>
  is not on the circle of radius \<open>CHILD_RADIUS\<close> around its parent.
\<close>

theorem second_child_off_parent_circle:
  "(nodeX (seedNodes twoChildren ! 3) - nodeX (seedNodes twoChildren ! 1))\<^sup>2
   + (nodeY (seedNodes twoChildren ! 3) - nodeY (seedNodes twoChildren ! 1))\<^sup>2
   > 2 * CHILD_RADIUS\<^sup>2
   \<and> parentId (seedNodes twoChildren ! 3) = Some (nodeId (seedNodes twoChildren ! 1))"
proof -
  have "0 < cos (theta + 1/2)"
    using theta_range by (intro cos_gt_zero_pi) simp_all
  have x: "nodeX (seedNodes twoChildren ! 3) - nodeX (seedNodes twoChildren ! 1)
            = 100 * (cos (1/4) + cos (theta + 1/4))"
    using seed_main seed_child1 by simp
  have y: "nodeY (seedNodes twoChildren ! 3) - nodeY (seedNodes twoChildren ! 1)
            = 100 * (sin (theta + 1/4) - sin (1/4))"
    using seed_main seed_child1 by simp
  have "(nodeX (seedNodes twoChildren ! 3) - nodeX (seedNodes twoChildren ! 1))\<^sup>2
   + (nodeY (seedNodes twoChildren ! 3) - nodeY (seedNodes twoChildren ! 1))\<^sup>2
     = (100 * (cos (1/4) + cos (theta + 1/4)))\<^sup>2 + (100 * (sin (theta + 1/4) - sin (1/4)))\<^sup>2"
    by (simp only: x y)
  also have "\<dots> = 100\<^sup>2 * ((cos (1/4) + cos (theta + 1/4))\<^sup>2 + (sin (theta + 1/4) - sin (1/4))\<^sup>2)"
    by (simp only: power_mult_distrib) (simp only: distrib_left)
  also have "\<dots> = 100\<^sup>2 * (2 + 2 * cos (1/4 + (theta + 1/4)))"
    by (simp only: chord)
  also have "1/4 + (theta + 1/4) = theta + 1/2" by simp
  finally show ?thesis
    using \<open>0 < cos (theta + 1/2)\<close> seed_main by (simp add: CHILD_RADIUS_def)
qed

section \<open>Properties of the dictation session\<close>

lemma onerror_network_retry:
  assumes "listeningIntentionally s" and "retryCount s < MAX_RETRIES"
  shows "onerror (js ''network'') s =
           s\<lparr>retryCount := retryCount s + 1,
             sttError := Some (js ''Connection unstable. Retrying...''),
             retryTimeoutRef := Some (nextTimerId s),
             timers := timers s @ [(nextTimerId s, 2 ^ retryCount s * 1000)],
             nextTimerId := nextTimerId s + 1\<rparr>"
  using assms by (simp add: onerror_def Let_def)

lemma onerror_network_exhausted:
  assumes "listeningIntentionally s" and "\<not> retryCount s < MAX_RETRIES"
  shows "onerror (js ''network'') s =
           stopListening (Some (js ''Network error. Please check your connection and try again.'')) s"
  using assms by (simp add: onerror_def)

lemma stopListening_final:
  assumes "msg \<noteq> []"
  shows "\<not> isListening (stopListening (Some msg) s)
       \<and> \<not> listeningIntentionally (stopListening (Some msg) s)
       \<and> sttError (stopListening (Some msg) s) = Some msg
       \<and> retryTimeoutRef (stopListening (Some msg) s) = None
       \<and> retryCount (stopListening (Some msg) s) = retryCount s
       \<and> set (timers (stopListening (Some msg) s)) \<subseteq> set (timers s)"
  using assms by (auto simp: stopListening_def Let_def clearTimeout_def split: option.split)

text \<open>
  The counter of consecutive errors is touched by results and network errors only; stopping
  and starting the session again leave it as it is.
\<close>

lemma retryCount_kept:
  "retryCount (onend s) = retryCount s \<and> retryCount (stop s) = retryCount s
   \<and> retryCount (start b s) = retryCount s \<and> retryCount (timerFired tid b s) = retryCount s"
  by (simp add: onend_def stop_def start_def timerFired_def startRecognition_def
      stopListening_def Let_def split: option.split)

text \<open>
  The handlers by the value of the counter. While \<open>listeningIntentionally\<close>, a network
  error arriving with \<open>retryCount = k - 1\<close>, \<open>1 \<le> k \<le> 3\<close>, raises the counter to \<open>k\<close>, keeps
  the session listening, shows the retry message and schedules one restart timer with delay
  \<open>2 ^ (k - 1) * 1000\<close> milliseconds; a recognition result resets the counter to zero and
  clears the message; a network error with \<open>retryCount = 3\<close> schedules nothing, clears the
  pending retry timer and stops the session with the error message. From a zero counter,
  three network errors in a row schedule the delays 1000, 2000 and 4000 and the fourth
  stops the session.
\<close>

lemma retry_by_counter:
  "(\<forall>s k. listeningIntentionally s \<and> 1 \<le> k \<and> k \<le> 3 \<and> retryCount s = k - 1 \<longrightarrow>
        retryCount (onerror (js ''network'') s) = k
      \<and> timers (onerror (js ''network'') s) = timers s @ [(nextTimerId s, 2 ^ (k - 1) * 1000)]
      \<and> retryTimeoutRef (onerror (js ''network'') s) = Some (nextTimerId s)
      \<and> listeningIntentionally (onerror (js ''network'') s)
      \<and> isListening (onerror (js ''network'') s) = isListening s
      \<and> sttError (onerror (js ''network'') s) = Some (js ''Connection unstable. Retrying...''))
   \<and> (\<forall>s results. retryCount (onresult results s) = 0 \<and> sttError (onresult results s) = None)
   \<and> (\<forall>s. listeningIntentionally s \<and> retryCount s = 3 \<longrightarrow>
        \<not> isListening (onerror (js ''network'') s)
      \<and> \<not> listeningIntentionally (onerror (js ''network'') s)
      \<and> retryTimeoutRef (onerror (js ''network'') s) = None
      \<and> set (timers (onerror (js ''network'') s)) \<subseteq> set (timers s)
      \<and> sttError (onerror (js ''network'') s)
          = Some (js ''Network error. Please check your connection and try again.''))
   \<and> (\<forall>s. listeningIntentionally s \<and> retryCount s = 0 \<longrightarrow>
        map snd (timers ((onerror (js ''network'') ^^ 3) s))
          = map snd (timers s) @ [1000, 2000, 4000]
      \<and> listeningIntentionally ((onerror (js ''network'') ^^ 3) s)
      \<and> \<not> listeningIntentionally ((onerror (js ''network'') ^^ 4) s)
      \<and> \<not> isListening ((onerror (js ''network'') ^^ 4) s)
      \<and> sttError ((onerror (js ''network'') ^^ 4) s)
          = Some (js ''Network error. Please check your connection and try again.''))"
proof (intro conjI allI impI)
  fix s :: Dictation and k :: nat
  assume a: "listeningIntentionally s \<and> 1 \<le> k \<and> k \<le> 3 \<and> retryCount s = k - 1"
  then have lt: "retryCount s < MAX_RETRIES" by (auto simp: MAX_RETRIES_def)
  from a have l: "listeningIntentionally s" and rc: "retryCount s + 1 = k" "retryCount s = k - 1"
    by auto
  note e = onerror_network_retry [OF l lt]
  from a show "retryCount (onerror (js ''network'') s) = k" by (simp add: e)
  from a show "timers (onerror (js ''network'') s) = timers s @ [(nextTimerId s, 2 ^ (k - 1) * 1000)]"
    by (simp add: e)
  from a show "retryTimeoutRef (onerror (js ''network'') s) = Some (nextTimerId s)" by (simp add: e)
  from a show "listeningIntentionally (onerror (js ''network'') s)" by (simp add: e)
  from a show "isListening (onerror (js ''network'') s) = isListening s" by (simp add: e)
  from a show "sttError (onerror (js ''network'') s) = Some (js ''Connection unstable. Retrying...'')"
    by (simp add: e)
next
  fix s :: Dictation and results
  show "retryCount (onresult results s) = 0" by (simp add: onresult_def Let_def)
  show "sttError (onresult results s) = None" by (simp add: onresult_def Let_def)
next
  fix s :: Dictation
  assume a: "listeningIntentionally s \<and> retryCount s = 3"
  then have e: "onerror (js ''network'') s =
           stopListening (Some (js ''Network error. Please check your connection and try again.'')) s"
    by (intro onerror_network_exhausted) (simp_all add: MAX_RETRIES_def)
  have ne: "js ''Network error. Please check your connection and try again.'' \<noteq> []"
    by (simp add: js_def)
  note f = stopListening_final [OF ne, of s]
  from f show "\<not> isListening (onerror (js ''network'') s)" by (simp add: e)
  from f show "\<not> listeningIntentionally (onerror (js ''network'') s)" by (simp add: e)
  from f show "retryTimeoutRef (onerror (js ''network'') s) = None" by (simp add: e)
  from f show "set (timers (onerror (js ''network'') s)) \<subseteq> set (timers s)"
    unfolding e by blast
  from f show "sttError (onerror (js ''network'') s)
          = Some (js ''Network error. Please check your connection and try again.'')"
    by (simp add: e)
next
  fix s :: Dictation
  assume a: "listeningIntentionally s \<and> retryCount s = 0"
  define s1 where "s1 = onerror (js ''network'') s"
  define s2 where "s2 = onerror (js ''network'') s1"
  define s3 where "s3 = onerror (js ''network'') s2"
  define s4 where "s4 = onerror (js ''network'') s3"
  have p: "(onerror (js ''network'') ^^ 3) s = s3" "(onerror (js ''network'') ^^ 4) s = s4"
    by (simp_all add: numeral_eq_Suc s1_def s2_def s3_def s4_def)
  from a have 1: "listeningIntentionally s1" "retryCount s1 = 1"
    "map snd (timers s1) = map snd (timers s) @ [1000]"
    by (simp_all add: s1_def onerror_network_retry MAX_RETRIES_def)
  then have 2: "listeningIntentionally s2" "retryCount s2 = 2"
    "map snd (timers s2) = map snd (timers s) @ [1000, 2000]"
    by (simp_all add: s2_def onerror_network_retry MAX_RETRIES_def)
  then have 3: "listeningIntentionally s3" "retryCount s3 = 3"
    "map snd (timers s3) = map snd (timers s) @ [1000, 2000, 4000]"
    by (simp_all add: s3_def onerror_network_retry MAX_RETRIES_def)
  then have e: "s4 = stopListening
      (Some (js ''Network error. Please check your connection and try again.'')) s3"
    unfolding s4_def by (intro onerror_network_exhausted) (simp_all add: MAX_RETRIES_def)
  have ne: "js ''Network error. Please check your connection and try again.'' \<noteq> []"
    by (simp add: js_def)
  note f = stopListening_final [OF ne, of s3]
  from 3 show "map snd (timers ((onerror (js ''network'') ^^ 3) s))
          = map snd (timers s) @ [1000, 2000, 4000]" by (simp add: p)
  from 3 show "listeningIntentionally ((onerror (js ''network'') ^^ 3) s)" by (simp add: p)
  from f show "\<not> listeningIntentionally ((onerror (js ''network'') ^^ 4) s)" by (simp add: p e)
  from f show "\<not> isListening ((onerror (js ''network'') ^^ 4) s)" by (simp add: p e)
  from f show "sttError ((onerror (js ''network'') ^^ 4) s)
          = Some (js ''Network error. Please check your connection and try again.'')"
    by (simp add: p e)
qed

text \<open>
  The first session, step by step: the three retries are scheduled with the delays 1000,
  2000 and 4000, and the fourth error ends the session with the counter at 3.
\<close>

lemma failedSession_eq:
  "failedSession =
     \<lparr> isListening = False, transcript = [],
       sttError = Some (js ''Network error. Please check your connection and try again.''),
       listeningIntentionally = False, retryTimeoutRef = None,
       timers = [], nextTimerId = 4, retryCount = 3 \<rparr>"
  by (simp add: failedSession_def mounted_def start_def onerror_def timerFired_def
      startRecognition_def stopListening_def clearTimeout_def MAX_RETRIES_def Let_def js_def)

lemma first_session_delays:
  "timers (onerror (js ''network'') (start False mounted)) = [(1, 1000)]
   \<and> timers (onerror (js ''network'')
         (timerFired 1 False (onerror (js ''network'') (start False mounted)))) = [(2, 2000)]
   \<and> timers (onerror (js ''network'')
         (timerFired 2 False (onerror (js ''network'')
            (timerFired 1 False (onerror (js ''network'') (start False mounted)))))) = [(3, 4000)]"
  by (simp add: mounted_def start_def onerror_def timerFired_def
      startRecognition_def clearTimeout_def MAX_RETRIES_def Let_def js_def)

text \<open>
  C8 at a session begun after a failed one. The first session uses its three retries and
  fails (\<open>failedSession\<close>); the user starts dictation again. The new session is listening
  and shows no error, but the counter is still 3: \<^verbatim>\<open>start\<close> does not reset it. The first
  network error of the new session, which the claim has scheduling a restart after one
  second, schedules no timer and stops the session with the terminal error message.
\<close>

theorem first_error_of_next_session_terminal:
  "isListening (start False failedSession)
   \<and> listeningIntentionally (start False failedSession)
   \<and> sttError (start False failedSession) = None
   \<and> retryCount (start False failedSession) = 3
   \<and> timers (onerror (js ''network'') (start False failedSession)) = []
   \<and> retryTimeoutRef (onerror (js ''network'') (start False failedSession)) = None
   \<and> \<not> isListening (onerror (js ''network'') (start False failedSession))
   \<and> \<not> listeningIntentionally (onerror (js ''network'') (start False failedSession))
   \<and> sttError (onerror (js ''network'') (start False failedSession))
       = Some (js ''Network error. Please check your connection and try again.'')"
  by (simp add: failedSession_eq start_def onerror_def stopListening_def MAX_RETRIES_def
      Let_def js_def)

section \<open>Properties of the editor\<close>

subsection \<open>The block that contains the cursor\<close>

lemma walkUp_Some: "walkUp bs cur = Some i \<Longrightarrow> i < length bs \<and> isElement (bs ! i)"
proof (induction bs cur rule: walkUp.induct)
  case (1 editorRoot current)
  show ?case
  proof (cases "current \<noteq> [] \<and> length current = 1
              \<and> (case nodeAt editorRoot current of Some n \<Rightarrow> isElement n | None \<Rightarrow> False)")
    case True
    then obtain k where c: "current = [k]" by (cases current) auto
    with True 1(2) show ?thesis
      by (subst (asm) walkUp.simps) (auto split: if_splits)
  next
    case False
    with 1 show ?thesis
      by (subst (asm) (2) walkUp.simps) (auto split: if_splits)
  qed
qed

lemma walkUp_prefix:
  "i < length bs \<Longrightarrow> isElement (bs ! i) \<Longrightarrow> walkUp bs (i # q) = Some i"
proof (induction q rule: rev_induct)
  case Nil
  then show ?case by (subst walkUp.simps) simp
next
  case (snoc x q)
  then show ?case by (subst walkUp.simps) (simp add: butlast_append)
qed

lemma getBlockContainer_Some:
  "getBlockContainer bs path = Some i \<Longrightarrow> i < length bs \<and> isElement (bs ! i)"
  unfolding getBlockContainer_def by (rule walkUp_Some)

lemma getBlockContainer_None:
  assumes "nodeAt bs path = Some n" and "getBlockContainer bs path = None"
  shows "\<exists>i s. path = [i] \<and> i < length bs \<and> bs ! i = Text s"
proof -
  from assms(1) obtain i p where path: "path = i # p" by (cases path) auto
  with assms(1) have i: "i < length bs" by (cases p) (auto split: if_splits)
  show ?thesis
  proof (cases "isElement (bs ! i)")
    case True
    have "\<exists>q. (case nodeAt bs path of Some (Text s) \<Rightarrow> butlast path | _ \<Rightarrow> path) = i # q"
    proof (cases p)
      case Nil
      with path assms(1) i True show ?thesis by (cases "bs ! i") auto
    next
      case (Cons j r)
      with path show ?thesis by (auto split: option.split dnode.split)
    qed
    then obtain q where "getBlockContainer bs path = walkUp bs (i # q)"
      by (auto simp: getBlockContainer_def)
    with walkUp_prefix [OF i True] assms(2) show ?thesis by simp
  next
    case False
    then obtain s where s: "bs ! i = Text s" by (cases "bs ! i") auto
    with path assms(1) i have "p = []" by (cases p) auto
    with path i s show ?thesis by simp
  qed
qed

subsection \<open>Placement of a structural command\<close>

lemma createElement_creates:
  "command \<noteq> ActionCommand AskAI \<Longrightarrow> command \<noteq> ActionCommand Table \<Longrightarrow>
   \<exists>e fp fo. createElement command = Some (e, fp, fo)"
  by (cases command rule: createElement.cases) auto

lemma not_startsWith_empty: "\<not> startsWith [] (js ''/'' @ q)"
  by (simp add: startsWith_def js_def)

lemma trim_Nil [simp]: "trim [] = []"
  by (simp add: trim_def)

lemma textContent_clearBlock: "isElement b \<Longrightarrow> textContent (clearBlock b) = []"
  by (cases b) (simp_all add: clearBlock_def)

text \<open>
  What the handler does where the trigger text is the whole text of the block or is absent.
  Let the cursor be in the block \<open>i\<close> and let the command be one that creates an element
  (every command but Ask AI and Table). If the block is textually empty, or its trimmed
  text is exactly the trigger text \<^verbatim>\<open>/\<close> followed by the query, the new element replaces the
  block; if the block is not empty and its trimmed text does not start with the trigger
  text, the new element is inserted immediately after the block, which stays as it is.
\<close>

lemma placement_without_other_text:
  assumes "selection ed = Some (path, off)"
    and "getBlockContainer (blocks ed) path = Some i"
    and "command \<noteq> ActionCommand AskAI" and "command \<noteq> ActionCommand Table"
  shows "\<exists>newElement focusPath focusOffset.
           createElement command = Some (newElement, focusPath, focusOffset)
         \<and> i < length (blocks ed)
         \<and> (trim (textContent (blocks ed ! i)) = [] \<longrightarrow>
              blocks (handleCommandSelect command ed) = (blocks ed)[i := newElement])
         \<and> (trim (textContent (blocks ed ! i)) = js ''/'' @ slashQuery ed \<longrightarrow>
              blocks (handleCommandSelect command ed) = (blocks ed)[i := newElement])
         \<and> (trim (textContent (blocks ed ! i)) \<noteq> []
              \<and> \<not> startsWith (trim (textContent (blocks ed ! i))) (js ''/'' @ slashQuery ed) \<longrightarrow>
              blocks (handleCommandSelect command ed)
                = take (Suc i) (blocks ed) @ [newElement] @ drop (Suc i) (blocks ed))"
proof -
  obtain e fp fo where c: "createElement command = Some (e, fp, fo)"
    using createElement_creates [OF assms(3,4)] by blast
  from getBlockContainer_Some [OF assms(2)]
  have i: "i < length (blocks ed)" and el: "isElement (blocks ed ! i)" by simp_all
  let ?t = "trim (textContent (blocks ed ! i))"
  have a: "?t = [] \<longrightarrow> blocks (handleCommandSelect command ed) = (blocks ed)[i := e]"
    using assms(1,2) c
    by (simp add: handleCommandSelect_def stripTrigger_def Let_def not_startsWith_empty)
  have b: "?t = js ''/'' @ slashQuery ed \<longrightarrow>
             blocks (handleCommandSelect command ed) = (blocks ed)[i := e]"
    using assms(1,2) c i el
    by (simp add: handleCommandSelect_def stripTrigger_def Let_def startsWith_def
        textContent_clearBlock)
  have d: "?t \<noteq> [] \<and> \<not> startsWith ?t (js ''/'' @ slashQuery ed) \<longrightarrow>
             blocks (handleCommandSelect command ed)
               = take (Suc i) (blocks ed) @ [e] @ drop (Suc i) (blocks ed)"
    using assms(1,2) c
    by (simp add: handleCommandSelect_def stripTrigger_def Let_def)
  from c i a b d show ?thesis by blast
qed

text \<open>
  With the empty query the menu offers every command.
\<close>

lemma filteredCommands_empty_query: "filteredCommands toLowerCase [] = ALL_COMMANDS"
  by (simp add: filteredCommands_def)

lemma getBlockContainer_slashHello: "getBlockContainer (blocks slashHello) [0, 0] = Some 0"
  by (simp add: getBlockContainer_def slashHello_def slashH1_def walkUp_prefix)

lemma trim_slashHello: "trim (textContent (blocks slashHello ! 0)) = js ''/hello''"
  by (simp add: slashHello_def slashH1_def trim_def js_def isWhiteSpace_def)

text \<open>
  C3 at the state \<open>slashHello\<close>: the user has typed \<^verbatim>\<open>/\<close> at the start of the paragraph
  \<^verbatim>\<open>hello\<close> and picks Heading 1, which the menu offers for the empty query. The block that
  contains the cursor is not textually empty: besides the trigger text it holds the user's
  text. The claim has the new heading inserted immediately after the block, which keeps
  its text. The handler empties the whole block, finds it empty and replaces it: the
  document is the new heading alone and the text \<^verbatim>\<open>hello\<close> is gone.
\<close>

theorem command_wipes_text_after_trigger:
  "TagCommand H1 \<in> set (filteredCommands toLowerCase (slashQuery slashHello))
   \<and> selection slashHello = Some ([0, 0], 1)
   \<and> getBlockContainer (blocks slashHello) [0, 0] = Some 0
   \<and> trim (textContent (blocks slashHello ! 0)) = js ''/hello''
   \<and> trim (textContent (blocks slashHello ! 0)) \<noteq> []
   \<and> blocks (handleCommandSelect (TagCommand H1) slashHello) = [Element ''h1'' [] [br]]
   \<and> blocks (handleCommandSelect (TagCommand H1) slashHello)
       \<noteq> [Element ''p'' [] [Text (js ''hello'')], Element ''h1'' [] [br]]
   \<and> blocks (handleCommandSelect (TagCommand H1) slashHello)
       \<noteq> take (Suc 0) (blocks slashHello) @ [Element ''h1'' [] [br]]
           @ drop (Suc 0) (blocks slashHello)
   \<and> concat (map textContent (blocks (handleCommandSelect (TagCommand H1) slashHello))) = []"
proof -
  have m: "TagCommand H1 \<in> set (filteredCommands toLowerCase (slashQuery slashHello))"
    by (simp add: slashHello_def filteredCommands_empty_query ALL_COMMANDS_def)
  have s: "selection slashHello = Some ([0, 0], 1)" by (simp add: slashHello_def)
  have q: "js ''/'' @ slashQuery slashHello = js ''/''" by (simp add: slashHello_def)
  have sw: "startsWith (js ''/hello'') (js ''/'')" by (simp add: startsWith_def js_def)
  have ne: "trim (textContent (blocks slashHello ! 0)) \<noteq> []"
    by (simp add: trim_slashHello js_def)
  have r: "blocks (handleCommandSelect (TagCommand H1) slashHello) = [Element ''h1'' [] [br]]"
    using s getBlockContainer_slashHello trim_slashHello q sw
    by (simp add: handleCommandSelect_def stripTrigger_def Let_def)
      (simp add: slashHello_def slashH1_def clearBlock_def)
  show ?thesis
    using m s getBlockContainer_slashHello trim_slashHello ne
    by (simp add: r) (simp add: slashHello_def br_def)
qed

subsection \<open>Table creation\<close>

lemma headCells_eq:
  "headCells c i acc =
     acc @ map (\<lambda>k. Element ''th'' [] [Text (js ''Header '' @ numberToString (k + 1))]) [i..c - 1]"
proof (induction c i acc rule: headCells.induct)
  case (1 c i acc)
  show ?case
  proof (cases "i < c")
    case True
    then have "[i..c - 1] = i # [i + 1..c - 1]" by (simp add: upto_rec1)
    with 1 True show ?thesis by (subst headCells.simps) simp
  next
    case False
    then show ?thesis by (subst headCells.simps) simp
  qed
qed

lemma bodyCells_eq:
  "bodyCells c j acc = acc @ replicate (nat (c - j)) (Element ''td'' [] [br])"
proof (induction c j acc rule: bodyCells.induct)
  case (1 c j acc)
  show ?case
  proof (cases "j < c")
    case True
    then have "nat (c - j) = Suc (nat (c - (j + 1)))" by simp
    with 1 True show ?thesis by (subst bodyCells.simps) (simp add: replicate_app_Cons_same)
  next
    case False
    then show ?thesis by (subst bodyCells.simps) simp
  qed
qed

lemma bodyRows_eq:
  "bodyRows r c i acc = acc @ replicate (nat (r - i)) (Element ''tr'' [] (bodyCells c 0 []))"
proof (induction r c i acc rule: bodyRows.induct)
  case (1 r c i acc)
  show ?case
  proof (cases "i < r")
    case True
    then have "nat (r - i) = Suc (nat (r - (i + 1)))" by simp
    with 1 True show ?thesis by (subst bodyRows.simps) (simp add: replicate_app_Cons_same)
  next
    case False
    then show ?thesis by (subst bodyRows.simps) simp
  qed
qed

lemma length_headCells: "length (headCells c 0 []) = nat c"
  by (simp add: headCells_eq)

lemma nth_headCells:
  assumes "j < nat c"
  shows "headCells c 0 [] ! j = Element ''th'' [] [Text (js ''Header '' @ decimal (Suc j))]"
proof -
  from assms have "[0..c - 1] ! j = int j" by (simp add: nth_upto)
  moreover from assms have "j < length [0..c - 1]" by simp
  moreover have "numberToString (int j + 1) = decimal (Suc j)"
    by (simp add: numberToString_def nat_add_distrib)
  ultimately show ?thesis by (simp add: headCells_eq)
qed

lemma createTable_shape:
  "createTable r c =
     Element ''table'' []
       [Element ''thead'' [] [Element ''tr'' [] (headCells c 0 [])],
        Element ''tbody'' []
          (replicate (nat r) (Element ''tr'' [] (replicate (nat c) (Element ''td'' [] [br]))))]"
  by (simp add: createTable_def bodyRows_eq bodyCells_eq)

lemma insertNodes_split:
  assumes "fst rng = [] \<or> (\<exists>i s. fst rng = [i] \<and> i < length bs \<and> bs ! i = Text s)"
  shows "\<exists>pre post. fst (insertNodes rng fragment bs) = pre @ fragment @ post"
  using assms
proof
  assume "fst rng = []"
  then show ?thesis by (auto simp: insertNodes_def)
next
  assume "\<exists>i s. fst rng = [i] \<and> i < length bs \<and> bs ! i = Text s"
  then obtain i s where "fst rng = [i]" "bs ! i = Text s" by blast
  then have "fst (insertNodes rng fragment bs)
      = (take i bs @ [Text (take (snd rng) s)]) @ fragment @ ([Text (drop (snd rng) s)] @ drop (Suc i) bs)"
    by (simp add: insertNodes_def)
  then show ?thesis by blast
qed

lemma blocks_handleBlur [simp]: "blocks (handleBlur td ed) = blocks ed"
  by (simp add: handleBlur_def Let_def)

lemma handleCreateTable_blocks:
  assumes "cursorContext ed = Some rng"
  shows "\<exists>ed'. handleCreateTable td r c ed = Inr ed'
          \<and> blocks ed' =
              (case getBlockContainer (blocks ed) (fst rng) of
                 Some i \<Rightarrow>
                   if trim (textContent (blocks ed ! i)) = []
                   then take i (blocks ed) @ [createTable r c, emptyParagraph] @ drop (Suc i) (blocks ed)
                   else take (Suc i) (blocks ed) @ [createTable r c, emptyParagraph]
                          @ drop (Suc i) (blocks ed)
               | None \<Rightarrow> fst (insertNodes rng [createTable r c, emptyParagraph] (blocks ed)))"
  using assms
  by (auto simp: handleCreateTable_def cursorContext_def Let_def split: option.splits prod.splits)

text \<open>
  C10. For \<open>r \<ge> 1\<close> rows and \<open>c \<ge> 1\<close> columns and a cursor context at a valid position,
  table creation succeeds and inserts exactly two nodes, the table immediately followed by
  an empty paragraph (in place of the current block when that is textually empty, after it
  otherwise). The table is a head with one row of exactly \<open>c\<close> cells, cell \<open>j\<close> (from 0)
  holding the text \<^verbatim>\<open>Header\<close> \<open>j + 1\<close> in decimal, and a body of exactly \<open>r\<close> rows of exactly
  \<open>c\<close> cells each, every cell holding a line break only and no text.
\<close>

theorem table_structure:
  assumes "1 \<le> r" and "1 \<le> c"
    and "cursorContext ed = Some rng" and "validPosition (blocks ed) rng"
  shows "\<exists>ed' pre post hs bd.
           handleCreateTable td r c ed = Inr ed'
         \<and> blocks ed' = pre @ [createTable r c, emptyParagraph] @ post
         \<and> (\<forall>i. getBlockContainer (blocks ed) (fst rng) = Some i \<longrightarrow>
               post = drop (Suc i) (blocks ed)
               \<and> pre = (if trim (textContent (blocks ed ! i)) = []
                        then take i (blocks ed) else take (Suc i) (blocks ed)))
         \<and> createTable r c =
             Element ''table'' [] [Element ''thead'' [] [Element ''tr'' [] hs], Element ''tbody'' [] bd]
         \<and> int (length hs) = c
         \<and> (\<forall>j<length hs. hs ! j = Element ''th'' [] [Text (js ''Header '' @ decimal (Suc j))])
         \<and> int (length bd) = r
         \<and> (\<forall>row\<in>set bd. \<exists>cells. row = Element ''tr'' [] cells \<and> int (length cells) = c
                \<and> (\<forall>cell\<in>set cells. cell = Element ''td'' [] [br] \<and> textContent cell = []))
         \<and> emptyParagraph = Element ''p'' [] [br]
         \<and> textContent emptyParagraph = []"
proof -
  let ?frag = "[createTable r c, emptyParagraph]"
  let ?bs = "blocks ed"
  obtain ed' where ed': "handleCreateTable td r c ed = Inr ed'"
    and b: "blocks ed' =
              (case getBlockContainer ?bs (fst rng) of
                 Some i \<Rightarrow>
                   if trim (textContent (?bs ! i)) = []
                   then take i ?bs @ ?frag @ drop (Suc i) ?bs
                   else take (Suc i) ?bs @ ?frag @ drop (Suc i) ?bs
               | None \<Rightarrow> fst (insertNodes rng ?frag ?bs))"
    using handleCreateTable_blocks [OF assms(3)] by blast
  have "\<exists>pre post. blocks ed' = pre @ ?frag @ post
         \<and> (\<forall>i. getBlockContainer ?bs (fst rng) = Some i \<longrightarrow>
               post = drop (Suc i) ?bs
               \<and> pre = (if trim (textContent (?bs ! i)) = [] then take i ?bs else take (Suc i) ?bs))"
  proof (cases "getBlockContainer ?bs (fst rng)")
    case (Some i)
    with b show ?thesis by auto
  next
    case None
    have "fst rng = [] \<or> (\<exists>i s. fst rng = [i] \<and> i < length ?bs \<and> ?bs ! i = Text s)"
    proof (cases "fst rng")
      case Nil
      then show ?thesis by simp
    next
      case (Cons i p)
      with assms(4) obtain n where "nodeAt ?bs (fst rng) = Some n"
        by (auto simp: validPosition_def split: option.splits)
      from getBlockContainer_None [OF this None] show ?thesis by simp
    qed
    from insertNodes_split [OF this, of ?frag] None b show ?thesis by auto
  qed
  then obtain pre post where p: "blocks ed' = pre @ ?frag @ post"
    "\<forall>i. getBlockContainer ?bs (fst rng) = Some i \<longrightarrow>
               post = drop (Suc i) ?bs
               \<and> pre = (if trim (textContent (?bs ! i)) = [] then take i ?bs else take (Suc i) ?bs)"
    by blast
  let ?hs = "headCells c 0 []"
  let ?bd = "replicate (nat r) (Element ''tr'' [] (replicate (nat c) (Element ''td'' [] [br])))"
  have "createTable r c =
          Element ''table'' [] [Element ''thead'' [] [Element ''tr'' [] ?hs], Element ''tbody'' [] ?bd]"
    by (rule createTable_shape)
  moreover have "int (length ?hs) = c" using assms(2) by (simp add: length_headCells)
  moreover have "\<forall>j<length ?hs. ?hs ! j = Element ''th'' [] [Text (js ''Header '' @ decimal (Suc j))]"
    by (simp add: nth_headCells length_headCells)
  moreover have "int (length ?bd) = r" using assms(1) by simp
  moreover have "\<forall>row\<in>set ?bd. \<exists>cells. row = Element ''tr'' [] cells \<and> int (length cells) = c
                \<and> (\<forall>cell\<in>set cells. cell = Element ''td'' [] [br] \<and> textContent cell = [])"
    using assms(2) by (simp add: br_def)
  moreover have "emptyParagraph = Element ''p'' [] [br]" by (simp add: emptyParagraph_def)
  moreover have "textContent emptyParagraph = []" by (simp add: emptyParagraph_def br_def)
  ultimately show ?thesis using ed' p by blast
qed

theorem table_structure_witness:
  "(1::int) \<le> 3 \<and> (1::int) \<le> 4
   \<and> cursorContext helloBlock = Some ([0, 0], 5)
   \<and> validPosition (blocks helloBlock) ([0, 0], 5)
   \<and> (\<exists>ed'. handleCreateTable (\<lambda>bs. []) 3 4 helloBlock = Inr ed'
           \<and> blocks ed' = [Element ''p'' [] [Text (js ''hello'')], createTable 3 4, emptyParagraph])"
proof -
  have c: "cursorContext helloBlock = Some ([0, 0], 5)"
    by (simp add: cursorContext_def helloBlock_def slashH1_def)
  have v: "validPosition (blocks helloBlock) ([0, 0], 5)"
    by (simp add: validPosition_def helloBlock_def js_def)
  have g: "getBlockContainer (blocks helloBlock) (fst ([0, 0], 5 :: nat)) = Some 0"
    by (simp add: getBlockContainer_def helloBlock_def walkUp_prefix)
  have t: "trim (textContent (blocks helloBlock ! 0)) \<noteq> []"
    by (simp add: helloBlock_def trim_def js_def isWhiteSpace_def)
  from table_structure [of 3 4 helloBlock "([0, 0], 5)" "\<lambda>bs. []", OF _ _ c v]
  obtain ed' pre post where e: "handleCreateTable (\<lambda>bs. []) 3 4 helloBlock = Inr ed'"
    and b: "blocks ed' = pre @ [createTable 3 4, emptyParagraph] @ post"
    and p: "\<forall>i. getBlockContainer (blocks helloBlock) (fst ([0, 0], 5 :: nat)) = Some i \<longrightarrow>
               post = drop (Suc i) (blocks helloBlock)
               \<and> pre = (if trim (textContent (blocks helloBlock ! i)) = []
                        then take i (blocks helloBlock) else take (Suc i) (blocks helloBlock))"
    by auto
  from p g t have "post = drop (Suc 0) (blocks helloBlock)" "pre = take (Suc 0) (blocks helloBlock)"
    by auto
  with b have "blocks ed' = [Element ''p'' [] [Text (js ''hello'')], createTable 3 4, emptyParagraph]"
    by (simp add: helloBlock_def)
  with e c v show ?thesis by simp
qed

subsection \<open>Clamping of the table dimensions\<close>

text \<open>
  \<open>handleCreateTable\<close> takes the dimensions as they come; the values it is called with come
  from the dialog, which is its only caller.
\<close>

lemma createTable_as_given: "createTable 0 0 \<noteq> createTable 1 1"
  by (simp add: createTable_shape)

lemma onChange_clamped:
  "1 \<le> modalRows (onChangeRows v m) \<and> 1 \<le> modalCols (onChangeCols v m)"
  by (simp add: onChangeRows_def onChangeCols_def)

lemma insertTable_eq:
  "insertTable td r c ed = Some (handleCreateTable td (max 1 r) (max 1 c) ed)"
  by (simp add: insertTable_def handleSubmit_def onChangeRows_def onChangeCols_def
      initialTableModal_def orOne_def max_def)

text \<open>
  C4. The dialog substitutes 1 for every dimension input that is not positive, so table
  creation with the inputs \<open>r\<close> and \<open>c\<close>, one of them not positive, is table creation with
  \<open>max 1 r\<close> and \<open>max 1 c\<close>: it calls \<open>handleCreateTable\<close> with these values. In particular
  the inputs 0 and 0 give the same document mutation as the inputs 1 and 1.
\<close>

theorem table_dimensions_clamped:
  "(\<forall>n m. n \<le> 0 \<longrightarrow> modalRows (onChangeRows (Some n) m) = 1
                     \<and> modalCols (onChangeCols (Some n) m) = 1)
   \<and> (\<forall>r c. r \<le> 0 \<or> c \<le> 0 \<longrightarrow>
         insertTable td r c ed = insertTable td (max 1 r) (max 1 c) ed
         \<and> insertTable td r c ed = Some (handleCreateTable td (max 1 r) (max 1 c) ed))
   \<and> insertTable td 0 0 ed = insertTable td 1 1 ed
   \<and> insertTable td 0 0 ed = Some (handleCreateTable td 1 1 ed)"
  by (simp add: insertTable_eq) (simp add: onChangeRows_def onChangeCols_def orOne_def max_def)

theorem table_dimensions_clamped_witness:
  "(0::int) \<le> 0 \<and> modalRows (onChangeRows (Some 0) initialTableModal) = 1
   \<and> insertTable (\<lambda>bs. []) 0 (-2) slashH1 = insertTable (\<lambda>bs. []) 1 1 slashH1"
  using table_dimensions_clamped [of "\<lambda>bs. []" slashH1]
  by simp


section \<open>Properties of AI requests\<close>

text \<open>
  When the service call fails, the handler leaves the tree and the note's content alone,
  prints the error on the console and fulfils its promise.
\<close>

lemma handleAiRequest_rejected:
  assumes "action \<noteq> AskAiAction \<or> customPrompt \<noteq> []"
  shows "blocks (fst (handleAiRequest td rr am action customPrompt (Rejected e) ed)) = blocks ed
       \<and> noteContent (fst (handleAiRequest td rr am action customPrompt (Rejected e) ed))
           = noteContent ed
       \<and> \<not> isAssistantOpen (fst (handleAiRequest td rr am action customPrompt (Rejected e) ed))
       \<and> consoleErrors (fst (handleAiRequest td rr am action customPrompt (Rejected e) ed))
           = consoleErrors ed @ [js ''AI request failed: '' @ e]
       \<and> snd (handleAiRequest td rr am action customPrompt (Rejected e) ed) = None"
  using assms by (auto simp: handleAiRequest_def Let_def)

lemma handleAiRequest_fulfils:
  "snd (handleAiRequest td rr am action customPrompt outcome ed) = None"
  by (simp add: handleAiRequest_def Let_def)

lemma handleAction_no_error:
  "aiError (fst (handleAction td rr am action override outcome st)) = None"
  by (simp add: handleAction_def Let_def handleAiRequest_fulfils split: prod.split option.split)
    (metis handleAiRequest_fulfils option.distinct(1) snd_conv)

text \<open>
  C9 at a failing service call: the assistant is open over the note \<open>helloBlock\<close>, the user
  picks the action Summarize and the service rejects with its error message. The tree and
  the note's content are as before; no error message is visible: the assistant's error is
  not set and the assistant is closed; the message went to the console only.
\<close>

theorem ai_failure_not_surfaced:
  "blocks (snd (handleAction td rr am (ServiceAction ''summarizeText'') None
             (Rejected (js ''An error occurred while communicating with the AI.''))
             (\<lparr>prompt = [], isLoading = False, aiError = None\<rparr>,
              helloBlock\<lparr>isAssistantOpen := True\<rparr>)))
     = blocks helloBlock
   \<and> noteContent (snd (handleAction td rr am (ServiceAction ''summarizeText'') None
             (Rejected (js ''An error occurred while communicating with the AI.''))
             (\<lparr>prompt = [], isLoading = False, aiError = None\<rparr>,
              helloBlock\<lparr>isAssistantOpen := True\<rparr>)))
     = noteContent helloBlock
   \<and> visibleAiError (handleAction td rr am (ServiceAction ''summarizeText'') None
             (Rejected (js ''An error occurred while communicating with the AI.''))
             (\<lparr>prompt = [], isLoading = False, aiError = None\<rparr>,
              helloBlock\<lparr>isAssistantOpen := True\<rparr>))
     = None
   \<and> aiError (fst (handleAction td rr am (ServiceAction ''summarizeText'') None
             (Rejected (js ''An error occurred while communicating with the AI.''))
             (\<lparr>prompt = [], isLoading = False, aiError = None\<rparr>,
              helloBlock\<lparr>isAssistantOpen := True\<rparr>)))
     = None
   \<and> \<not> isAssistantOpen (snd (handleAction td rr am (ServiceAction ''summarizeText'') None
             (Rejected (js ''An error occurred while communicating with the AI.''))
             (\<lparr>prompt = [], isLoading = False, aiError = None\<rparr>,
              helloBlock\<lparr>isAssistantOpen := True\<rparr>)))
   \<and> consoleErrors (snd (handleAction td rr am (ServiceAction ''summarizeText'') None
             (Rejected (js ''An error occurred while communicating with the AI.''))
             (\<lparr>prompt = [], isLoading = False, aiError = None\<rparr>,
              helloBlock\<lparr>isAssistantOpen := True\<rparr>)))
     = [js ''AI request failed: '' @ js ''An error occurred while communicating with the AI.'']"
  by (simp add: handleAction_def handleAiRequest_def visibleAiError_def Let_def
      helloBlock_def slashH1_def)


section \<open>Properties of the viewport\<close>

text \<open>
  C6. For a transform with non-zero scale and a wheel event with the pointer at
  \<open>(px, py)\<close> (relative to the container), zooming sets the scale to the wheel-adjusted
  scale clamped to \<open>[0.2, 2]\<close> and the translation to
  \<open>pointer - (pointer - oldTranslation) * (newScale / oldScale)\<close>; the canvas point that was
  under the pointer before the zoom is under the pointer after it, clamped or not.
\<close>

theorem handleWheel_zoom_to_cursor:
  assumes "scale transform \<noteq> 0"
  shows "scale (handleWheel transform e)
           = max 0.2 (min (scale transform - deltaY e * 0.001) 2)
       \<and> transX (handleWheel transform e)
           = (clientX e - rectLeft e)
             - ((clientX e - rectLeft e) - transX transform)
               * (scale (handleWheel transform e) / scale transform)
       \<and> transY (handleWheel transform e)
           = (clientY e - rectTop e)
             - ((clientY e - rectTop e) - transY transform)
               * (scale (handleWheel transform e) / scale transform)
       \<and> toScreen (handleWheel transform e)
            (toWorld transform (clientX e - rectLeft e, clientY e - rectTop e))
           = (clientX e - rectLeft e, clientY e - rectTop e)"
  using assms
  by (simp add: handleWheel_def toScreen_def toWorld_def Let_def algebra_simps)

theorem handleWheel_zoom_to_cursor_witness:
  "scale \<lparr> scale = 1.9, transX = 10, transY = 20 \<rparr> \<noteq> 0
   \<and> scale (handleWheel \<lparr> scale = 1.9, transX = 10, transY = 20 \<rparr>
               \<lparr> deltaY = -500, clientX = 140, clientY = 260, rectLeft = 40, rectTop = 60 \<rparr>) = 2
   \<and> toScreen (handleWheel \<lparr> scale = 1.9, transX = 10, transY = 20 \<rparr>
               \<lparr> deltaY = -500, clientX = 140, clientY = 260, rectLeft = 40, rectTop = 60 \<rparr>)
        (toWorld \<lparr> scale = 1.9, transX = 10, transY = 20 \<rparr> (100, 200)) = (100, 200)"
  using handleWheel_zoom_to_cursor
    [of "\<lparr> scale = 1.9, transX = 10, transY = 20 \<rparr>"
        "\<lparr> deltaY = -500, clientX = 140, clientY = 260, rectLeft = 40, rectTop = 60 \<rparr>"]
  by simp

end
